theory Spec2Isabelle
  imports Complex_Main
begin

section \<open>Python strings\<close>

text \<open>
  A Python \<open>str\<close> is modelled as a \<open>string\<close>, the UTF-8 bytes of its text. Comparison,
  concatenation and search are exact on every string. Whitespace and letter case are
  modelled for ASCII: a byte above 127 is neither whitespace nor a cased letter here (but
  for the title case of U+0149, see \<open>capitalize\<close>). Python's methods also know the
  whitespace and the cased letters outside ASCII, so every statement about \<open>strip\<close>,
  \<open>split\<close>, \<open>lower\<close> and \<open>capitalize\<close> that depends on what they do is made for ASCII text
  (\<open>ascii_str\<close>), or at a text for which the definition gives what Python gives.
\<close>

definition ascii_str :: "string \<Rightarrow> bool" where
  "ascii_str s = list_all (\<lambda>c. (of_char c :: nat) < 128) s"

definition is_space :: "char \<Rightarrow> bool" where
  \<comment> \<open>\<open>str.isspace\<close> on ASCII: tab, newline, VT, FF, CR, the separators 28..31, space.\<close>
  "is_space c = (let n = (of_char c :: nat) in (9 \<le> n \<and> n \<le> 13) \<or> (28 \<le> n \<and> n \<le> 32))"

definition is_upper :: "char \<Rightarrow> bool" where
  "is_upper c = (let n = (of_char c :: nat) in 65 \<le> n \<and> n \<le> 90)"

definition is_lower :: "char \<Rightarrow> bool" where
  "is_lower c = (let n = (of_char c :: nat) in 97 \<le> n \<and> n \<le> 122)"

definition lower_char :: "char \<Rightarrow> char" where
  "lower_char c = (if is_upper c then char_of ((of_char c :: nat) + 32) else c)"

definition upper_char :: "char \<Rightarrow> char" where
  "upper_char c = (if is_lower c then char_of ((of_char c :: nat) - 32) else c)"

definition lstrip :: "string \<Rightarrow> string" where
  "lstrip s = dropWhile is_space s"

definition rstrip :: "string \<Rightarrow> string" where
  "rstrip s = rev (dropWhile is_space (rev s))"

definition strip :: "string \<Rightarrow> string" where
  \<comment> \<open>\<open>s.strip()\<close>\<close>
  "strip s = rstrip (lstrip s)"

definition lower :: "string \<Rightarrow> string" where
  \<comment> \<open>\<open>s.lower()\<close>\<close>
  "lower s = map lower_char s"

fun split_from :: "string \<Rightarrow> string \<Rightarrow> string list" where
  "split_from cur [] = (if cur = [] then [] else [cur])"
| "split_from cur (c # cs) =
     (if is_space c then (if cur = [] then split_from [] cs else cur # split_from [] cs)
      else split_from (cur @ [c]) cs)"

definition split :: "string \<Rightarrow> string list" where
  \<comment> \<open>\<open>s.split()\<close>: the maximal runs of non-whitespace characters, in order.\<close>
  "split s = split_from [] s"

fun join :: "string \<Rightarrow> string list \<Rightarrow> string" where
  \<comment> \<open>\<open>sep.join(xs)\<close>\<close>
  "join sep [] = []"
| "join sep [x] = x"
| "join sep (x # y # ys) = x @ sep @ join sep (y # ys)"

definition remove_spaces :: "string \<Rightarrow> string" where
  \<comment> \<open>\<open>s.replace(" ", "")\<close>\<close>
  "remove_spaces s = filter (\<lambda>c. c \<noteq> CHR '' '') s"

fun starts_with :: "string \<Rightarrow> string \<Rightarrow> bool" where
  "starts_with [] s = True"
| "starts_with (p # ps) [] = False"
| "starts_with (p # ps) (c # cs) = (p = c \<and> starts_with ps cs)"

fun contains :: "string \<Rightarrow> string \<Rightarrow> bool" where
  \<comment> \<open>\<open>sub in s\<close>\<close>
  "contains sub [] = (sub = [])"
| "contains sub (c # cs) = (starts_with sub (c # cs) \<or> contains sub cs)"

definition n_apostrophe :: string where
  \<comment> \<open>U+0149, LATIN SMALL LETTER N PRECEDED BY APOSTROPHE\<close>
  "n_apostrophe = [CHR 0xC5, CHR 0x89]"

definition apostrophe_then_N :: string where
  \<comment> \<open>U+02BC, MODIFIER LETTER APOSTROPHE, then \<open>N\<close>: the title case of U+0149\<close>
  "apostrophe_then_N = [CHR 0xCA, CHR 0xBC, CHR ''N'']"

definition capitalize :: "string \<Rightarrow> string" where
  \<comment> \<open>\<open>s.capitalize()\<close>: the first character in title case, all the others in lower case.
      The title case is that of the ASCII letters and of U+0149.\<close>
  "capitalize s =
     (if starts_with n_apostrophe s then apostrophe_then_N @ lower (drop 2 s)
      else (case s of [] \<Rightarrow> [] | c # cs \<Rightarrow> upper_char c # lower cs))"

section \<open>The store and the base scraper\<close>

datatype error =
    AttributeError | TypeError | KeyError | JSONDecodeError
  | HTTPError | ConnectionError | RuntimeError | TimeoutError | IndexError

text \<open>One row of the table \<open>tyres\<close>; the \<open>id\<close> column is the row's position.\<close>

record tyre_row =
  website_name :: string
  tyre_brand :: string
  tyre_pattern :: string
  tyre_size :: string
  seasonality :: string
  price :: string

type_synonym size_query = "int \<times> int \<times> int"

datatype log_record =
    AddingTyre string string string string string string
  | OnlyOnePage size_query
  | ScrapingBranch nat
  | ScrapingInput size_query
  | ScrapingComplete
  | StartingPostcodes
  | PostcodesExtracted nat
  | ScrapingPostcode string

text \<open>
  A request that got its response: its URL, the clock reading when it was issued and the
  reading when it completed.
\<close>

record http_request =
  req_url :: string
  issued_at :: real
  completed_at :: real

text \<open>
  What the program does to the browser, each with the browser context it is done in. A
  context is named by its number in the order of creation. \<open>PageContent p\<close> is a call of
  \<open>page.content()\<close> that returned result page \<open>p\<close>; \<open>ClickPagination i\<close> is a click on
  \<open>pagination_div.locator("a").nth(i)\<close>, and \<open>.last\<close> is \<open>nth(-1)\<close>.
\<close>

datatype action =
    NewContext | NewPage | Goto string | ClickLink string | WaitForTimeout int
  | SelectDropdown string string | CountBranches | ClickSelectBranch nat
  | PageContent nat | ClickPagination int | CloseContext | CloseBrowser

text \<open>
  The scraper object (\<open>website\<close>, \<open>last_request_time\<close>) together with what the program
  reads and writes outside it: the clock \<open>time.monotonic()\<close>, the table \<open>tyres\<close> of
  \<open>tyres.db\<close>, the log \<open>tyres.log\<close>, the file \<open>postcodes.json\<close>, the requests sent, and
  the browser: how many contexts were created, which of them are open, and what was done.
\<close>

record scraper =
  website :: string
  last_request_time :: "real option"
  monotonic :: real
  tyres :: "tyre_row list"
  logged :: "log_record list"
  postcodes_json :: "string list option"
  sent :: "http_request list"
  contexts_made :: nat
  open_contexts :: "nat list"
  actions :: "(nat \<times> action) list"

definition TyreScraper :: "real \<Rightarrow> tyre_row list \<Rightarrow> scraper" where
  \<comment> \<open>\<open>TyreScraper.__init__\<close>, at clock reading \<open>t\<close> over the table \<open>rows\<close>\<close>
  "TyreScraper t rows =
     \<lparr>website = ''Unknown'', last_request_time = None, monotonic = t, tyres = rows,
      logged = [], postcodes_json = None, sent = [], contexts_made = 0, open_contexts = [],
      actions = []\<rparr>"

definition DexelScraper :: "real \<Rightarrow> tyre_row list \<Rightarrow> scraper" where
  "DexelScraper t rows = (TyreScraper t rows)\<lparr>website := ''Dexel''\<rparr>"

definition NationalTyreExtractor :: "real \<Rightarrow> tyre_row list \<Rightarrow> scraper" where
  "NationalTyreExtractor t rows = (TyreScraper t rows)\<lparr>website := ''National''\<rparr>"

definition info :: "log_record \<Rightarrow> scraper \<Rightarrow> scraper" where
  \<comment> \<open>\<open>logger.info\<close>\<close>
  "info r st = st\<lparr>logged := logged st @ [r]\<rparr>"

definition add_to_database ::
  "string \<Rightarrow> string \<Rightarrow> string \<Rightarrow> string \<Rightarrow> string \<Rightarrow> scraper \<Rightarrow> scraper" where
  "add_to_database brand pattern sz season cost st =
     (let st1 = info (AddingTyre (website st) brand pattern sz season cost) st
      in st1\<lparr>tyres := tyres st1 @
           [\<lparr>website_name = website st1, tyre_brand = brand, tyre_pattern = pattern,
             tyre_size = sz, seasonality = lower season, price = cost\<rparr>]\<rparr>)"

definition lowercase :: "string \<Rightarrow> bool" where
  \<comment> \<open>no ASCII capital letter occurs\<close>
  "lowercase s = list_all (\<lambda>c. \<not> is_upper c) s"

definition seasons_lowercase :: "tyre_row list \<Rightarrow> bool" where
  \<comment> \<open>every season in the table is ASCII text without a capital letter\<close>
  "seasons_lowercase rows =
     list_all (\<lambda>r. ascii_str (seasonality r) \<and> lowercase (seasonality r)) rows"

section \<open>Python values that may be missing\<close>

definition and_then :: "error + 'a \<Rightarrow> ('a \<Rightarrow> error + 'b) \<Rightarrow> error + 'b" where
  \<comment> \<open>sequencing: an exception raised by the first step skips the second\<close>
  "and_then r f = (case r of Inl e \<Rightarrow> Inl e | Inr x \<Rightarrow> f x)"

definition attribute_of :: "'a option \<Rightarrow> error + 'a" where
  \<comment> \<open>a method call or attribute access on a value that may be \<open>None\<close>\<close>
  "attribute_of v = (case v of None \<Rightarrow> Inl AttributeError | Some x \<Rightarrow> Inr x)"

text \<open>
  The result of \<open>json.loads\<close>. A JSON object is the list of the items of the resulting
  \<open>dict\<close>.
\<close>

datatype json =
    JNull | JBool bool | JNumber real | JString string
  | JArray "json list" | JObject "(string \<times> json) list"

text \<open>An attribute's text, by what \<open>json.loads\<close> makes of it.\<close>

datatype json_text = Malformed | Document json

definition json_loads :: "json_text option \<Rightarrow> error + json" where
  \<comment> \<open>\<open>json.loads(None)\<close> is a \<open>TypeError\<close>\<close>
  "json_loads a =
     (case a of None \<Rightarrow> Inl TypeError
      | Some Malformed \<Rightarrow> Inl JSONDecodeError
      | Some (Document j) \<Rightarrow> Inr j)"

definition dict_get :: "string \<Rightarrow> json \<Rightarrow> error + json option" where
  \<comment> \<open>\<open>j.get(k)\<close>: only a \<open>dict\<close> has the method\<close>
  "dict_get k j = (case j of JObject items \<Rightarrow> Inr (map_of items k) | _ \<Rightarrow> Inl AttributeError)"

definition str_strip :: "json option \<Rightarrow> error + string" where
  \<comment> \<open>\<open>v.strip()\<close>: only a \<open>str\<close> has the method\<close>
  "str_strip v = (case v of Some (JString s) \<Rightarrow> Inr (strip s) | _ \<Rightarrow> Inl AttributeError)"

section \<open>Site A cards: \<open>DexelScraper.parse_html\<close>\<close>

text \<open>
  A card \<open>div.tkf-product\<close>, by what the selectors of \<open>parse_html\<close> find in it: \<open>None\<close> is
  an element that \<open>select_one\<close> does not find, or an attribute that \<open>get\<close> does not find.
\<close>

record detail_area =
  brand_input :: "string option option"
  pattern_input :: "string option option"

record tkf_product =
  detail_area :: "detail_area option"
  para_text :: "string option"
  icon_title :: "string option option"
  box_data_prices :: "json_text option option"

text \<open>The five arguments of \<open>add_to_database\<close>.\<close>

record observation =
  obs_brand :: string
  obs_pattern :: string
  obs_size :: string
  obs_season :: string
  obs_price :: string

definition record_observation :: "observation \<Rightarrow> scraper \<Rightarrow> scraper" where
  "record_observation ob st =
     add_to_database (obs_brand ob) (obs_pattern ob) (obs_size ob) (obs_season ob) (obs_price ob) st"

definition dexel_minimum_price :: "json_text option \<Rightarrow> error + string" where
  \<comment> \<open>\<open>json.loads(price_json).get("minimum_price").strip()\<close>\<close>
  "dexel_minimum_price a =
     and_then (json_loads a) (\<lambda>parsed.
     and_then (dict_get ''minimum_price'' parsed) str_strip)"

definition dexel_tyre :: "tkf_product \<Rightarrow> error + observation" where
  "dexel_tyre individual_tyre =
     and_then (attribute_of (detail_area individual_tyre)) (\<lambda>info_div.
     and_then (and_then (attribute_of (brand_input info_div)) attribute_of) (\<lambda>brand_value.
     and_then (and_then (attribute_of (pattern_input info_div)) attribute_of) (\<lambda>pattern_value.
     and_then (attribute_of (para_text individual_tyre)) (\<lambda>para.
     and_then (and_then (attribute_of (icon_title individual_tyre)) attribute_of) (\<lambda>title.
     and_then (attribute_of (box_data_prices individual_tyre)) (\<lambda>price_json.
     and_then (dexel_minimum_price price_json) (\<lambda>minimum_price.
       Inr \<lparr>obs_brand = capitalize (strip brand_value),
            obs_pattern = capitalize (strip pattern_value),
            obs_size = join '' '' (take 2 (split (strip para))),
            obs_season = capitalize (strip title),
            obs_price = minimum_price\<rparr>)))))))"

fun parse_html :: "tkf_product list \<Rightarrow> scraper \<Rightarrow> (error + unit) \<times> scraper" where
  \<comment> \<open>the loop over \<open>soup.select('div.tkf-product')\<close>; a raise leaves the rows added so far\<close>
  "parse_html [] st = (Inr (), st)"
| "parse_html (individual_tyre # rest) st =
     (case dexel_tyre individual_tyre of
        Inl e \<Rightarrow> (Inl e, st)
      | Inr ob \<Rightarrow> parse_html rest (record_observation ob st))"

section \<open>Site B cards\<close>

text \<open>
  A card \<open>div[id*="TyreResults_rptTyres_divTyre_"]\<close>: its data attributes, and the link
  \<open>a[id*="hypPattern"]\<close> with its text and the text of the \<open>p\<close> that follows its parent \<open>p\<close>
  (\<open>None\<close>: no parent \<open>p\<close>; \<open>Some None\<close>: no following \<open>p\<close>).
\<close>

record hyp_pattern =
  link_text :: string
  next_paragraph :: "string option option"

record national_tyre =
  data_brand :: "string option"
  pattern_link :: "hyp_pattern option"
  data_tyre_season :: "string option"
  data_price :: "string option"

definition national_observation :: "national_tyre \<Rightarrow> error + observation" where
  "national_observation individual_tyre =
     and_then (attribute_of (data_brand individual_tyre)) (\<lambda>brand_value.
     and_then (attribute_of (pattern_link individual_tyre)) (\<lambda>pattern.
     and_then (attribute_of (next_paragraph pattern)) (\<lambda>size_p.
     and_then (attribute_of size_p) (\<lambda>size_text.
     and_then (attribute_of (data_tyre_season individual_tyre)) (\<lambda>season_value.
     and_then (attribute_of (data_price individual_tyre)) (\<lambda>price_value.
       Inr \<lparr>obs_brand = strip brand_value,
            obs_pattern = strip (link_text pattern),
            obs_size = strip size_text,
            obs_season = strip season_value,
            obs_price = strip price_value\<rparr>))))))"

fun add_national_tyres :: "national_tyre list \<Rightarrow> scraper \<Rightarrow> (error + unit) \<times> scraper" where
  \<comment> \<open>the loop over \<open>individual_tyre_list\<close> in \<open>extract_data\<close>\<close>
  "add_national_tyres [] st = (Inr (), st)"
| "add_national_tyres (individual_tyre # rest) st =
     (case national_observation individual_tyre of
        Inl e \<Rightarrow> (Inl e, st)
      | Inr ob \<Rightarrow> add_national_tyres rest (record_observation ob st))"

section \<open>The season mapping of the bythjul script\<close>

definition Vinterdaeck :: string where
  \<comment> \<open>the word with a-umlaut, U+00E4, in UTF-8\<close>
  "Vinterdaeck = ''Vinterd'' @ [CHR 0xC3, CHR 0xA4] @ ''ck''"

definition Sommardaeck :: string where
  "Sommardaeck = ''Sommard'' @ [CHR 0xC3, CHR 0xA4] @ ''ck''"

definition bythjul_season :: "string \<Rightarrow> string" where
  "bythjul_season season =
     (if season = Vinterdaeck then ''Winter''
      else if season = Sommardaeck then ''Summer''
      else season)"

definition dexel_season :: "string \<Rightarrow> string" where
  \<comment> \<open>\<open>....get("title").strip().capitalize()\<close>\<close>
  "dexel_season title = capitalize (strip title)"

definition national_season :: "string \<Rightarrow> string" where
  \<comment> \<open>\<open>individual_tyre.get("data-tyre-season").strip()\<close>\<close>
  "national_season v = strip v"

section \<open>Fetching: \<open>fetch_html\<close> and \<open>fetch_html_timed\<close>\<close>

text \<open>
  A parsed document of site B, by what the three selectors of the engine find in it: the
  \<open>href\<close> of every \<open>a[id*="hypBranchName"]\<close> (\<open>None\<close>: the link has none), the text of the first
  \<open>span\<close> with \<open>itemprop="postalCode"\<close>, and the result cards.
\<close>

record soup =
  branch_links :: "string option list"
  postal_code :: "string option"
  tyre_results :: "national_tyre list"

text \<open>
  What \<open>requests.get\<close> does with a URL: it raises after some time without a response, or it
  returns a response after some time, for which \<open>raise_for_status\<close> raises or not (the HTTP
  capability raises on an error status), with the document \<open>bs(response.text)\<close>.
\<close>

datatype response = NoResponse real | Response real bool soup

type_synonym web = "string \<Rightarrow> response"

definition sleep :: "real \<Rightarrow> scraper \<Rightarrow> scraper" where
  \<comment> \<open>\<open>time.sleep(d)\<close>\<close>
  "sleep d st = st\<lparr>monotonic := monotonic st + d\<rparr>"

definition fetch_html :: "web \<Rightarrow> string \<Rightarrow> scraper \<Rightarrow> (error + soup) \<times> scraper" where
  "fetch_html www url st =
     (case www url of
        NoResponse d \<Rightarrow> (Inl ConnectionError, st\<lparr>monotonic := monotonic st + d\<rparr>)
      | Response d status_error body \<Rightarrow>
          (let t = monotonic st + d;
               st1 = st\<lparr>monotonic := t,
                        sent := sent st @ [\<lparr>req_url = url, issued_at = monotonic st, completed_at = t\<rparr>],
                        last_request_time := Some t\<rparr>
           in if status_error then (Inl HTTPError, st1) else (Inr body, st1)))"

definition throttle :: "scraper \<Rightarrow> scraper" where
  \<comment> \<open>the wait of \<open>fetch_html_timed\<close>; \<open>if self.last_request_time:\<close> is false for \<open>None\<close> and for \<open>0.0\<close>\<close>
  "throttle st =
     (case last_request_time st of
        None \<Rightarrow> st
      | Some t \<Rightarrow>
          if t = 0 then st
          else (let time_elapsed = monotonic st - t
                in if time_elapsed \<le> 1 then sleep (1 - time_elapsed) st else st))"

definition is_request_exception :: "error \<Rightarrow> bool" where
  "is_request_exception e = (e = HTTPError \<or> e = ConnectionError)"

definition fetch_html_timed :: "web \<Rightarrow> string \<Rightarrow> scraper \<Rightarrow> (error + soup) \<times> scraper" where
  "fetch_html_timed www url st =
     (case fetch_html www url (throttle st) of
        (Inl e, st1) \<Rightarrow> (Inl (if is_request_exception e then RuntimeError else e), st1)
      | (Inr body, st1) \<Rightarrow> (Inr body, st1))"

section \<open>Site B: \<open>NationalTyreExtractor\<close>\<close>

fun digits :: "nat \<Rightarrow> string" where
  "digits n = (if n < 10 then [char_of (48 + n)] else digits (n div 10) @ [char_of (48 + n mod 10)])"

definition str_int :: "int \<Rightarrow> string" where
  \<comment> \<open>an \<open>int\<close> in an f-string\<close>
  "str_int i = (if i < 0 then CHR ''-'' # digits (nat (- i)) else digits (nat i))"

fun branch_sites :: "string option list \<Rightarrow> error + string list" where
  \<comment> \<open>the comprehension over \<open>branch_links\<close>; \<open>link['href']\<close> on a link without it is a \<open>KeyError\<close>\<close>
  "branch_sites [] = Inr []"
| "branch_sites (None # links) = Inl KeyError"
| "branch_sites (Some href # links) =
     and_then (branch_sites links) (\<lambda>sites. Inr ((''https://www.national.co.uk/'' @ href) # sites))"

definition clean_postcode :: "string \<Rightarrow> string" where
  \<comment> \<open>\<open>.text.strip()\<close>, then \<open>.replace(" ", "")\<close>\<close>
  "clean_postcode t = remove_spaces (strip t)"

fun collect_postcodes ::
  "web \<Rightarrow> string list \<Rightarrow> string list \<Rightarrow> scraper \<Rightarrow> (error + string list) \<times> scraper" where
  \<comment> \<open>the loop over \<open>list_of_branch_sites\<close>, appending to \<open>postcodes_list\<close>\<close>
  "collect_postcodes www [] postcodes_list st = (Inr postcodes_list, st)"
| "collect_postcodes www (branch_site # sites) postcodes_list st =
     (case fetch_html www branch_site st of
        (Inl e, st1) \<Rightarrow> (Inl e, st1)
      | (Inr individual_branch_soup, st1) \<Rightarrow>
          (case postal_code individual_branch_soup of
             None \<Rightarrow> (Inl AttributeError, st1)
           | Some t \<Rightarrow> collect_postcodes www sites (postcodes_list @ [clean_postcode t]) st1))"


definition list_of_set :: "(string list \<Rightarrow> string list) \<Rightarrow> string list \<Rightarrow> string list" where
  "list_of_set order xs = order (remdups xs)"


definition find_branch_postcodes ::
  "(string list \<Rightarrow> string list) \<Rightarrow> web \<Rightarrow> scraper \<Rightarrow> (error + string list) \<times> scraper" where
  "find_branch_postcodes order www st =
     (case fetch_html www ''https://www.national.co.uk/branches'' (info StartingPostcodes st) of
        (Inl e, st1) \<Rightarrow> (Inl e, st1)
      | (Inr branches_page_soup, st1) \<Rightarrow>
          (case branch_sites (branch_links branches_page_soup) of
             Inl e \<Rightarrow> (Inl e, st1)
           | Inr list_of_branch_sites \<Rightarrow>
               (case collect_postcodes www list_of_branch_sites [] st1 of
                  (Inl e, st2) \<Rightarrow> (Inl e, st2)
                | (Inr postcodes_list, st2) \<Rightarrow>
                    (Inr (list_of_set order postcodes_list),
                     info (PostcodesExtracted (length postcodes_list)) st2))))"

definition search_url :: "size_query \<Rightarrow> string \<Rightarrow> string" where
  "search_url q postcode =
     (case q of (width, aspect_ratio, rim_size) \<Rightarrow>
        ''https://www.national.co.uk/tyres-search/'' @ str_int width @ ''-'' @ str_int aspect_ratio
          @ ''-'' @ str_int rim_size @ ''?pc='' @ postcode)"

fun extract_inputs ::
  "web \<Rightarrow> size_query list \<Rightarrow> string \<Rightarrow> scraper \<Rightarrow> (error + unit) \<times> scraper" where
  \<comment> \<open>the loop over \<open>inputs\<close> for one postcode\<close>
  "extract_inputs www [] postcode st = (Inr (), st)"
| "extract_inputs www (q # qs) postcode st =
     (case fetch_html www (search_url q postcode) (info (ScrapingInput q) st) of
        (Inl e, st1) \<Rightarrow> (Inl e, st1)
      | (Inr tyre_soup, st1) \<Rightarrow>
          (case add_national_tyres (tyre_results tyre_soup) st1 of
             (Inl e, st2) \<Rightarrow> (Inl e, st2)
           | (Inr u, st2) \<Rightarrow> extract_inputs www qs postcode st2))"

fun extract_data ::
  "web \<Rightarrow> size_query list \<Rightarrow> string list \<Rightarrow> scraper \<Rightarrow> (error + unit) \<times> scraper" where
  "extract_data www inputs [] st = (Inr (), st)"
| "extract_data www inputs (postcode # postcodes) st =
     (case extract_inputs www inputs postcode (info (ScrapingPostcode postcode) st) of
        (Inl e, st1) \<Rightarrow> (Inl e, st1)
      | (Inr u, st1) \<Rightarrow> extract_data www inputs postcodes st1)"

definition national_scrape ::
  "(string list \<Rightarrow> string list) \<Rightarrow> web \<Rightarrow> size_query list \<Rightarrow> scraper \<Rightarrow> (error + unit) \<times> scraper" where
  \<comment> \<open>\<open>NationalTyreExtractor.scrape\<close>: the postcodes are written to \<open>postcodes.json\<close>, then used\<close>
  "national_scrape order www inputs st =
     (case find_branch_postcodes order www st of
        (Inl e, st1) \<Rightarrow> (Inl e, st1)
      | (Inr postcodes, st1) \<Rightarrow>
          extract_data www inputs postcodes (st1\<lparr>postcodes_json := Some postcodes\<rparr>))"

section \<open>The specification's wording, for comparison\<close>

text \<open>
  Title case as the specification words it: each word capitalised. A word is a maximal run
  of letters; its first letter is put in upper case and its other letters in lower case.
\<close>

fun title_from :: "bool \<Rightarrow> string \<Rightarrow> string" where
  "title_from inside [] = []"
| "title_from inside (c # cs) =
     (if is_upper c \<or> is_lower c
      then (if inside then lower_char c else upper_char c) # title_from True cs
      else c # title_from False cs)"

definition spec_title_case :: "string \<Rightarrow> string" where
  "spec_title_case s = title_from False s"

text \<open>
  The minimum advertised price among the tiers, as the specification words it: the tier
  price with the least amount, a price text being read as a decimal number.
\<close>

definition digit_of :: "char \<Rightarrow> nat option" where
  "digit_of c = (let n = (of_char c :: nat) in if 48 \<le> n \<and> n \<le> 57 then Some (n - 48) else None)"

fun number_of :: "string \<Rightarrow> nat \<Rightarrow> nat option" where
  "number_of [] acc = Some acc"
| "number_of (c # cs) acc =
     (case digit_of c of None \<Rightarrow> None | Some d \<Rightarrow> number_of cs (10 * acc + d))"

definition amount_of :: "string \<Rightarrow> real option" where
  "amount_of s =
     (let whole = takeWhile (\<lambda>c. c \<noteq> CHR ''.'') s;
          frac = drop 1 (dropWhile (\<lambda>c. c \<noteq> CHR ''.'') s)
      in case (number_of whole 0, number_of frac 0) of
           (Some w, Some f) \<Rightarrow> Some (real w + real f / 10 ^ length frac)
         | _ \<Rightarrow> None)"

definition cheaper :: "string \<Rightarrow> string \<Rightarrow> bool" where
  "cheaper p q = (case (amount_of p, amount_of q) of (Some a, Some b) \<Rightarrow> a \<le> b | _ \<Rightarrow> False)"

fun tier_prices :: "(string \<times> json) list \<Rightarrow> string list" where
  "tier_prices [] = []"
| "tier_prices ((k, JString v) # items) = strip v # tier_prices items"
| "tier_prices ((k, j) # items) = tier_prices items"

fun cheapest :: "string list \<Rightarrow> string option" where
  "cheapest [] = None"
| "cheapest (p # ps) =
     (case cheapest ps of None \<Rightarrow> Some p | Some q \<Rightarrow> if cheaper p q then Some p else Some q)"

definition spec_minimum_among_tiers :: "(string \<times> json) list \<Rightarrow> string option" where
  "spec_minimum_among_tiers tiers = cheapest (tier_prices tiers)"

text \<open>
  All-lowercase as the specification words it: no upper-case letter occurs. Of the
  upper-case letters outside ASCII the definition knows U+1D400, MATHEMATICAL BOLD CAPITAL
  A, an upper-case letter that has no lower case.
\<close>

definition bold_capital_a :: string where
  "bold_capital_a = [CHR 0xF0, CHR 0x9D, CHR 0x90, CHR 0x80]"

definition spec_all_lowercase :: "string \<Rightarrow> bool" where
  "spec_all_lowercase s = (lowercase s \<and> \<not> contains bold_capital_a s)"

section \<open>Example cards\<close>

definition dexel_card :: "string \<Rightarrow> string \<Rightarrow> string \<Rightarrow> string \<Rightarrow> json_text \<Rightarrow> tkf_product" where
  \<comment> \<open>a card in which every element and attribute that \<open>parse_html\<close> reads is present\<close>
  "dexel_card brand_value pattern_value para title prices =
     \<lparr>detail_area = Some \<lparr>brand_input = Some (Some brand_value), pattern_input = Some (Some pattern_value)\<rparr>,
      para_text = Some para, icon_title = Some (Some title), box_data_prices = Some (Some prices)\<rparr>"

definition national_card :: "string \<Rightarrow> string \<Rightarrow> string \<Rightarrow> string \<Rightarrow> string \<Rightarrow> national_tyre" where
  \<comment> \<open>a card in which every element and attribute that \<open>extract_data\<close> reads is present\<close>
  "national_card brand_value pattern_value size_value season_value price_value =
     \<lparr>data_brand = Some brand_value,
      pattern_link = Some \<lparr>link_text = pattern_value, next_paragraph = Some (Some size_value)\<rparr>,
      data_tyre_season = Some season_value, data_price = Some price_value\<rparr>"

definition spec_payload :: json_text where
  \<comment> \<open>\<open>{"minimum_price": "120.00", "other_tier": "150.00"}\<close>\<close>
  "spec_payload = Document (JObject [(''minimum_price'', JString ''120.00''), (''other_tier'', JString ''150.00'')])"

definition swapped_tiers :: "(string \<times> json) list" where
  \<comment> \<open>\<open>{"minimum_price": "150.00", "other_tier": "120.00"}\<close>\<close>
  "swapped_tiers = [(''minimum_price'', JString ''150.00''), (''other_tier'', JString ''120.00'')]"

definition winter_card :: tkf_product where
  "winter_card = dexel_card ''michelin'' ''alpin 6'' ''205/55 R16 91H'' ''Winter'' spec_payload"

definition pilot_card :: tkf_product where
  "pilot_card = dexel_card ''pilot sport'' ''primacy 4'' ''205/55 R16 91V'' ''Summer'' spec_payload"

definition michelin_card :: national_tyre where
  "michelin_card = national_card ''michelin'' ''pilot sport 4'' ''205/55 R16 91V'' ''Summer'' ''89.99''"

definition blank_brand_card :: tkf_product where
  "blank_brand_card = dexel_card '' '' ''primacy 4'' ''205/55 R16 91V'' ''Summer'' spec_payload"

definition swapped_card :: tkf_product where
  "swapped_card = dexel_card ''michelin'' ''primacy 4'' ''205/55 R16 91V'' ''Summer'' (Document (JObject swapped_tiers))"

definition no_brand_card :: tkf_product where
  \<comment> \<open>a card without its \<open>div.detailArea\<close>\<close>
  "no_brand_card = pilot_card\<lparr>detail_area := None\<rparr>"

definition no_price_card :: national_tyre where
  \<comment> \<open>a card without its \<open>data-price\<close>\<close>
  "no_price_card = michelin_card\<lparr>data_price := None\<rparr>"

definition malformed_price_card :: tkf_product where
  \<comment> \<open>a card whose \<open>data-prices\<close> is not JSON\<close>
  "malformed_price_card = dexel_card ''michelin'' ''primacy 4'' ''205/55 R16 91V'' ''Summer'' Malformed"

definition no_minimum_card :: tkf_product where
  \<comment> \<open>a card whose \<open>data-prices\<close> is \<open>{"other_tier": "150.00"}\<close>\<close>
  "no_minimum_card =
     dexel_card ''michelin'' ''primacy 4'' ''205/55 R16 91V'' ''Summer''
       (Document (JObject [(''other_tier'', JString ''150.00'')]))"

section \<open>Example sites\<close>

definition page_of_postcode :: "string \<Rightarrow> soup" where
  "page_of_postcode t = \<lparr>branch_links = [], postal_code = Some t, tyre_results = []\<rparr>"

definition four_branches :: web where
  \<comment> \<open>a directory of four branches; three of them share a postcode\<close>
  "four_branches url =
     (if url = ''https://www.national.co.uk/branches'' then
        Response (1/4) False
          \<lparr>branch_links = [Some ''b1'', Some ''b2'', Some ''b3'', Some ''b4''],
           postal_code = None, tyre_results = []\<rparr>
      else if url = ''https://www.national.co.uk/b1'' then Response (1/4) False (page_of_postcode ''AB1 2CD'')
      else if url = ''https://www.national.co.uk/b2'' then Response (1/4) False (page_of_postcode ''EF3 4GH'')
      else if url = ''https://www.national.co.uk/b3'' then Response (1/4) False (page_of_postcode '' AB1 2CD '')
      else if url = ''https://www.national.co.uk/b4'' then Response (1/4) False (page_of_postcode ''AB12CD'')
      else Response (1/4) False \<lparr>branch_links = [], postal_code = None, tyre_results = []\<rparr>)"

definition empty_soup :: soup where
  "empty_soup = \<lparr>branch_links = [], postal_code = None, tyre_results = []\<rparr>"

definition failing_site :: web where
  \<comment> \<open>every page answers after a quarter of a second; the page \<open>gone\<close> with an error status\<close>
  "failing_site url =
     (if url = ''https://www.national.co.uk/gone'' then Response (1/4) True empty_soup
      else Response (1/4) False empty_soup)"

definition after_failure :: scraper where
  "after_failure = snd (fetch_html failing_site ''https://www.national.co.uk/gone'' (NationalTyreExtractor 10 []))"

section \<open>Site A: the browser\<close>

text \<open>
  The pagination footer \<open>div.custom-pagination\<close>, by what the locators of \<open>scrape_branch\<close>
  find in it: its links (\<open>locator('a')\<close>), each with its text and the result page a click on
  it loads, and the \<open>class\<close> attribute of each of its list items (\<open>locator("li")\<close>).
\<close>

record pagination_link =
  anchor_text :: string
  leads_to :: nat

record custom_pagination =
  anchors :: "pagination_link list"
  item_classes :: "string option list"

record result_page =
  products :: "tkf_product list"
  pagination :: custom_pagination

text \<open>
  Site A as a browsing session sees it: the number of \<open>Select This Branch\<close> buttons that a
  search for a size shows, and the result pages of a size and a branch, numbered from 1.
\<close>

record dexel_site =
  branch_buttons :: "size_query \<Rightarrow> nat"
  results :: "size_query \<Rightarrow> nat \<Rightarrow> nat \<Rightarrow> result_page"

definition act :: "nat \<Rightarrow> action \<Rightarrow> scraper \<Rightarrow> scraper" where
  "act c a st = st\<lparr>actions := actions st @ [(c, a)]\<rparr>"





datatype step = OnlyPage | LastPage | Click int

definition pagination_step :: "custom_pagination \<Rightarrow> error + step" where
  \<comment> \<open>the branch after \<open>parse_html\<close> in the loop of \<open>scrape_branch\<close>; reading the class of the
      last \<open>li\<close> of a footer without list items times out\<close>
  "pagination_step footer =
     (if length (anchors footer) = 0 then Inr OnlyPage
      else if contains ''Last'' (strip (anchor_text (last (anchors footer))))
        then Inr (Click (int (length (anchors footer)) - 2))
      else if item_classes footer = [] then Inl TimeoutError
      else if last (item_classes footer) = Some ''active'' then Inr LastPage
      else Inr (Click (- 1)))"

definition nth_locator :: "'a list \<Rightarrow> int \<Rightarrow> 'a option" where
  \<comment> \<open>\<open>locator.nth(i)\<close>: the element at index \<open>i\<close>; \<open>nth(-1)\<close> is the last one\<close>
  "nth_locator xs i =
     (if xs = [] then None
      else if i = - 1 then Some (last xs)
      else if 0 \<le> i \<and> i < int (length xs) then Some (xs ! nat i)
      else None)"

partial_function (option) pages_loop ::
  "dexel_site \<Rightarrow> nat \<Rightarrow> nat \<Rightarrow> size_query \<Rightarrow> nat \<Rightarrow> scraper \<Rightarrow> ((error + unit) \<times> scraper) option" where
  "pages_loop site c branch inputs p st =
     (case parse_html (products (results site inputs branch p)) (act c (PageContent p) st) of
        (Inl e, st1) \<Rightarrow> Some (Inl e, st1)
      | (Inr u, st1) \<Rightarrow>
          (case pagination_step (pagination (results site inputs branch p)) of
             Inl e \<Rightarrow> Some (Inl e, st1)
           | Inr OnlyPage \<Rightarrow> Some (Inr (), info (OnlyOnePage inputs) st1)
           | Inr LastPage \<Rightarrow> Some (Inr (), st1)
           | Inr (Click i) \<Rightarrow>
               (case nth_locator (anchors (pagination (results site inputs branch p))) i of
                  None \<Rightarrow> Some (Inl TimeoutError, st1)
                | Some next_page \<Rightarrow>
                    pages_loop site c branch inputs (leads_to next_page)
                      (act c (ClickPagination i) st1))))"

declare pages_loop.simps [code]







section \<open>Reading the record of a site A run\<close>

definition paging :: "action \<Rightarrow> bool" where
  \<comment> \<open>what the pagination loop does to the page\<close>
  "paging a = (case a of PageContent p \<Rightarrow> True | ClickPagination i \<Rightarrow> True | _ \<Rightarrow> False)"

definition shown_pages :: "(nat \<times> action) list \<Rightarrow> nat list" where
  \<comment> \<open>the result pages handed to \<open>parse_html\<close>, in order\<close>
  "shown_pages evs = concat (map (\<lambda>e. case snd e of PageContent p \<Rightarrow> [p] | _ \<Rightarrow> []) evs)"

definition row_of :: "string \<Rightarrow> observation \<Rightarrow> tyre_row" where
  "row_of site_name ob =
     \<lparr>website_name = site_name, tyre_brand = obs_brand ob, tyre_pattern = obs_pattern ob,
      tyre_size = obs_size ob, seasonality = lower (obs_season ob), price = obs_price ob\<rparr>"

fun card_rows :: "string \<Rightarrow> tkf_product list \<Rightarrow> tyre_row list" where
  \<comment> \<open>the rows of the cards of one page, up to the first card that raises\<close>
  "card_rows site_name [] = []"
| "card_rows site_name (c # cs) =
     (case dexel_tyre c of Inl e \<Rightarrow> [] | Inr ob \<Rightarrow> row_of site_name ob # card_rows site_name cs)"

definition forward_links :: "dexel_site \<Rightarrow> size_query \<Rightarrow> nat \<Rightarrow> nat \<Rightarrow> bool" where
  \<comment> \<open>a result set of \<open>n\<close> pages in which the link that the loop clicks on a page leads to a
      later page\<close>
  "forward_links site inputs branch n =
     (\<forall>p i next_page.
        pagination_step (pagination (results site inputs branch p)) = Inr (Click i) \<longrightarrow>
        nth_locator (anchors (pagination (results site inputs branch p))) i = Some next_page \<longrightarrow>
        p < leads_to next_page \<and> leads_to next_page \<le> n)"

definition skeleton :: "(nat \<times> action) list \<Rightarrow> (nat \<times> action) list" where
  \<comment> \<open>the record without what the pagination loops did\<close>
  "skeleton evs = filter (\<lambda>e. \<not> paging (snd e)) evs"




section \<open>An example of site A\<close>

definition numbered_link :: "string \<Rightarrow> nat \<Rightarrow> pagination_link" where
  "numbered_link t p = \<lparr>anchor_text = t, leads_to = p\<rparr>"

definition three_pages :: dexel_site where
  \<comment> \<open>one branch; three result pages for every size. Page 1 shows \<open>1 2 3 Next Last\<close>, page 2
      shows \<open>Prev 1 2 3 Next\<close>, page 3 shows \<open>Prev 1 2 3\<close> with the last item active.\<close>
  "three_pages =
     \<lparr>branch_buttons = (\<lambda>q. 1),
      results = (\<lambda>q b p.
        if p = 1 then
          \<lparr>products = [pilot_card],
           pagination = \<lparr>anchors = [numbered_link ''1'' 1, numbered_link ''2'' 2, numbered_link ''3'' 3,
                                     numbered_link ''Next >'' 2, numbered_link '' Last >> '' 3],
                         item_classes = [Some ''active'', None, None, None, None]\<rparr>\<rparr>
        else if p = 2 then
          \<lparr>products = [winter_card],
           pagination = \<lparr>anchors = [numbered_link ''< Prev'' 1, numbered_link ''1'' 1, numbered_link ''2'' 2,
                                     numbered_link ''3'' 3, numbered_link ''Next >'' 3],
                         item_classes = [None, None, Some ''active'', None, None]\<rparr>\<rparr>
        else if p = 3 then
          \<lparr>products = [blank_brand_card],
           pagination = \<lparr>anchors = [numbered_link ''< Prev'' 2, numbered_link ''1'' 1, numbered_link ''2'' 2,
                                     numbered_link ''3'' 3],
                         item_classes = [None, None, None, Some ''active'']\<rparr>\<rparr>
        else \<lparr>products = [], pagination = \<lparr>anchors = [], item_classes = []\<rparr>\<rparr>)\<rparr>"


section \<open>Facts about the string operations\<close>

lemma is_upper_lower_char: "\<not> is_upper (lower_char c)"
  by (auto simp: lower_char_def is_upper_def Let_def)

lemma lowercase_lower: "lowercase (lower s)"
  by (induction s) (simp_all add: lowercase_def lower_def is_upper_lower_char)

lemma is_space_upper_char: "is_space (upper_char c) = is_space c"
  by (auto simp: upper_char_def is_lower_def is_space_def Let_def)

lemma is_space_lower_char: "is_space (lower_char c) = is_space c"
  by (auto simp: lower_char_def is_upper_def is_space_def Let_def)

lemma lower_char_idem: "lower_char (lower_char c) = lower_char c"
  using is_upper_lower_char [of c] by (simp add: lower_char_def)

lemma upper_char_idem: "upper_char (upper_char c) = upper_char c"
  by (auto simp: upper_char_def is_lower_def Let_def)

lemma lower_idem: "lower (lower s) = lower s"
  by (simp add: lower_def lower_char_idem)

lemma ascii_lower_char: "(of_char c :: nat) < 128 \<Longrightarrow> (of_char (lower_char c) :: nat) < 128"
  by (auto simp: lower_char_def is_upper_def Let_def)

lemma ascii_upper_char: "(of_char c :: nat) < 128 \<Longrightarrow> (of_char (upper_char c) :: nat) < 128"
  by (auto simp: upper_char_def is_lower_def Let_def)

lemma ascii_lower: "ascii_str s \<Longrightarrow> ascii_str (lower s)"
  by (induction s) (simp_all add: ascii_str_def lower_def ascii_lower_char)

lemma ascii_strip: "ascii_str s \<Longrightarrow> ascii_str (strip s)"
  unfolding ascii_str_def list_all_iff strip_def rstrip_def lstrip_def
  by (auto dest!: set_dropWhileD)

lemma ascii_capitalize:
  "ascii_str s \<Longrightarrow> capitalize s = (case s of [] \<Rightarrow> [] | c # cs \<Rightarrow> upper_char c # lower cs)"
  by (cases s) (auto simp: capitalize_def n_apostrophe_def ascii_str_def)

lemma ascii_capitalized: "ascii_str s \<Longrightarrow> ascii_str (capitalize s)"
proof (cases s)
  case Nil
  then show ?thesis by (simp add: capitalize_def n_apostrophe_def ascii_str_def)
next
  case (Cons c cs)
  assume a: "ascii_str s"
  with Cons have "(of_char c :: nat) < 128" and "ascii_str cs" by (simp_all add: ascii_str_def)
  with ascii_lower [of cs] ascii_upper_char [of c] ascii_capitalize [OF a] Cons
  show ?thesis by (simp add: ascii_str_def)
qed

lemma capitalize_idem: "ascii_str s \<Longrightarrow> capitalize (capitalize s) = capitalize s"
proof -
  assume a: "ascii_str s"
  from ascii_capitalize [OF a] ascii_capitalize [OF ascii_capitalized [OF a]]
  show ?thesis by (cases s) (simp_all add: upper_char_idem lower_idem)
qed

lemma lstrip_Nil_iff: "lstrip s = [] \<longleftrightarrow> list_all is_space s"
  by (simp add: lstrip_def dropWhile_eq_Nil_conv list_all_iff)

lemma rstrip_Nil_iff: "rstrip s = [] \<longleftrightarrow> list_all is_space s"
  by (simp add: rstrip_def dropWhile_eq_Nil_conv list_all_iff)

lemma lstrip_hd: "lstrip s \<noteq> [] \<Longrightarrow> \<not> is_space (hd (lstrip s))"
  unfolding lstrip_def by (rule hd_dropWhile)

lemma rstrip_last: "rstrip s \<noteq> [] \<Longrightarrow> \<not> is_space (last (rstrip s))"
  unfolding rstrip_def using hd_dropWhile [of is_space "rev s"] by (simp add: last_rev)

lemma rstrip_prefix: "\<exists>w. s = rstrip s @ w \<and> list_all is_space w"
proof -
  have "rev s = takeWhile is_space (rev s) @ dropWhile is_space (rev s)" by simp
  then have "s = rev (dropWhile is_space (rev s)) @ rev (takeWhile is_space (rev s))"
    by (metis rev_append rev_rev_ident)
  moreover have "list_all is_space (rev (takeWhile is_space (rev s)))"
    by (simp add: list_all_iff) (meson set_takeWhileD)
  ultimately show ?thesis unfolding rstrip_def by blast
qed

lemma rstrip_hd: "rstrip s \<noteq> [] \<Longrightarrow> hd (rstrip s) = hd s"
  using rstrip_prefix [of s] by (metis hd_append2)

lemma lstrip_id: "s = [] \<or> \<not> is_space (hd s) \<Longrightarrow> lstrip s = s"
  by (cases s) (auto simp: lstrip_def)

lemma rstrip_id: "s = [] \<or> \<not> is_space (last s) \<Longrightarrow> rstrip s = s"
proof (cases "s = []")
  case True then show ?thesis by (simp add: rstrip_def)
next
  case False
  assume "s = [] \<or> \<not> is_space (last s)"
  with False have "\<not> is_space (hd (rev s))" by (simp add: hd_rev)
  moreover from False have "rev s \<noteq> []" by simp
  ultimately have "dropWhile is_space (rev s) = rev s" by (cases "rev s") auto
  then show ?thesis by (simp add: rstrip_def)
qed

lemma strip_ends: "strip s = [] \<or> (\<not> is_space (hd (strip s)) \<and> \<not> is_space (last (strip s)))"
proof (cases "strip s = []")
  case True then show ?thesis by simp
next
  case False
  then have ne: "rstrip (lstrip s) \<noteq> []" by (simp add: strip_def)
  then have "lstrip s \<noteq> []" by (auto simp: rstrip_def)
  then have "\<not> is_space (hd (lstrip s))" by (rule lstrip_hd)
  with rstrip_hd [OF ne] have "\<not> is_space (hd (strip s))" by (simp add: strip_def)
  moreover from rstrip_last [OF ne] have "\<not> is_space (last (strip s))" by (simp add: strip_def)
  ultimately show ?thesis by simp
qed

lemma strip_id: "s = [] \<or> (\<not> is_space (hd s) \<and> \<not> is_space (last s)) \<Longrightarrow> strip s = s"
  by (auto simp: strip_def lstrip_id rstrip_id)

lemma strip_idem: "strip (strip s) = strip s"
  using strip_ends [of s] by (intro strip_id) simp

lemma strip_Nil_iff: "strip s = [] \<longleftrightarrow> list_all is_space s"
proof
  assume "strip s = []"
  then have "list_all is_space (lstrip s)" by (simp add: strip_def rstrip_Nil_iff)
  then have "lstrip s = []"
    using lstrip_hd [of s] by (cases "lstrip s") auto
  then show "list_all is_space s" by (simp add: lstrip_Nil_iff)
next
  assume "list_all is_space s"
  then show "strip s = []" by (simp add: strip_def lstrip_Nil_iff [THEN iffD2] rstrip_def)
qed

lemma capitalize_Nil_iff: "capitalize s = [] \<longleftrightarrow> s = []"
  by (cases s) (simp_all add: capitalize_def apostrophe_then_N_def n_apostrophe_def)

lemma capitalize_ends:
  "ascii_str s \<Longrightarrow> s \<noteq> [] \<Longrightarrow>
     is_space (hd (capitalize s)) = is_space (hd s) \<and> is_space (last (capitalize s)) = is_space (last s)"
  using ascii_capitalize [of s]
  by (cases s) (auto simp: lower_def is_space_upper_char is_space_lower_char last_map)

lemma strip_capitalize_strip:
  "ascii_str s \<Longrightarrow> strip (capitalize (strip s)) = capitalize (strip s)"
proof (cases "strip s = []")
  case True
  then have "capitalize (strip s) = []" by (simp add: capitalize_Nil_iff)
  then show ?thesis by (simp add: strip_def lstrip_def rstrip_def)
next
  case False
  assume "ascii_str s"
  then have "ascii_str (strip s)" by (rule ascii_strip)
  with strip_ends [of s] capitalize_ends [OF _ False] False show ?thesis
    by (intro strip_id) simp
qed

lemma dexel_season_idem: "ascii_str s \<Longrightarrow> dexel_season (dexel_season s) = dexel_season s"
  by (simp add: dexel_season_def strip_capitalize_strip capitalize_idem ascii_strip)

lemma ascii_no_bold_capital: "ascii_str s \<Longrightarrow> \<not> contains bold_capital_a s"
  by (induction s) (auto simp: bold_capital_a_def ascii_str_def)

lemma split_from_tokens: "t \<in> set (split_from cur s) \<Longrightarrow> t \<noteq> []"
  by (induction cur s rule: split_from.induct) (auto split: if_splits)

lemma split_from_Nil_iff: "split_from cur s = [] \<longleftrightarrow> cur = [] \<and> list_all is_space s"
  by (induction cur s rule: split_from.induct) auto

lemma join_Nil_iff: "\<forall>t\<in>set xs. t \<noteq> [] \<Longrightarrow> join sep xs = [] \<longleftrightarrow> xs = []"
  by (induction sep xs rule: join.induct) auto

lemma size_Nil_iff: "join '' '' (take 2 (split (strip s))) = [] \<longleftrightarrow> list_all is_space s"
proof -
  have "\<forall>t\<in>set (take 2 (split (strip s))). t \<noteq> []"
    by (metis in_set_takeD split_def split_from_tokens)
  then have "join '' '' (take 2 (split (strip s))) = [] \<longleftrightarrow> take 2 (split (strip s)) = []"
    by (rule join_Nil_iff)
  also have "\<dots> \<longleftrightarrow> split (strip s) = []" by simp
  also have "\<dots> \<longleftrightarrow> list_all is_space (strip s)" by (simp add: split_def split_from_Nil_iff)
  also have "\<dots> \<longleftrightarrow> strip s = []"
    using strip_ends [of s] by (cases "strip s") auto
  also have "\<dots> \<longleftrightarrow> list_all is_space s" by (rule strip_Nil_iff)
  finally show ?thesis .
qed

section \<open>Facts about the store\<close>

lemma tyres_info: "tyres (info r st) = tyres st"
  by (simp add: info_def)

lemma tyres_add_to_database:
  "tyres (add_to_database b p s se c st) = tyres st @
     [\<lparr>website_name = website st, tyre_brand = b, tyre_pattern = p, tyre_size = s,
       seasonality = lower se, price = c\<rparr>]"
  by (simp add: add_to_database_def info_def Let_def)

lemma seasons_add_to_database:
  "ascii_str se \<Longrightarrow> seasons_lowercase (tyres st) \<Longrightarrow>
     seasons_lowercase (tyres (add_to_database b p s se c st))"
  by (simp add: tyres_add_to_database seasons_lowercase_def lowercase_lower ascii_lower)

lemma seasons_record_observation:
  "ascii_str (obs_season ob) \<Longrightarrow> seasons_lowercase (tyres st) \<Longrightarrow>
     seasons_lowercase (tyres (record_observation ob st))"
  by (simp add: record_observation_def seasons_add_to_database)

lemma seasons_fold_record_observation:
  "list_all (\<lambda>ob. ascii_str (obs_season ob)) obs \<Longrightarrow> seasons_lowercase (tyres st) \<Longrightarrow>
     seasons_lowercase (tyres (fold record_observation obs st))"
  by (induction obs arbitrary: st) (simp_all add: seasons_record_observation)

section \<open>Facts about the normalisers\<close>

lemma and_then_Inr: "and_then r f = Inr y \<longleftrightarrow> (\<exists>x. r = Inr x \<and> f x = Inr y)"
  by (cases r) (simp_all add: and_then_def)

lemma attribute_of_Inr: "attribute_of v = Inr x \<longleftrightarrow> v = Some x"
  by (cases v) (simp_all add: attribute_of_def)

lemma json_loads_Inr: "json_loads a = Inr j \<longleftrightarrow> a = Some (Document j)"
  by (auto simp: json_loads_def split: option.splits json_text.splits)

lemma dict_get_Inr: "dict_get k j = Inr v \<longleftrightarrow> (\<exists>items. j = JObject items \<and> v = map_of items k)"
  by (cases j) (auto simp: dict_get_def)

lemma str_strip_Inr: "str_strip v = Inr s \<longleftrightarrow> (\<exists>t. v = Some (JString t) \<and> s = strip t)"
  by (auto simp: str_strip_def split: option.splits json.splits)

lemma dexel_minimum_price_Inr:
  "dexel_minimum_price a = Inr s \<longleftrightarrow>
     (\<exists>tiers v. a = Some (Document (JObject tiers)) \<and> map_of tiers ''minimum_price'' = Some (JString v)
        \<and> s = strip v)"
  by (auto simp: dexel_minimum_price_def and_then_Inr json_loads_Inr dict_get_Inr str_strip_Inr)

lemma dexel_tyre_Inr:
  "dexel_tyre c = Inr ob \<longleftrightarrow>
     (\<exists>d b p s t tiers v.
        detail_area c = Some d \<and> brand_input d = Some (Some b) \<and> pattern_input d = Some (Some p)
        \<and> para_text c = Some s \<and> icon_title c = Some (Some t)
        \<and> box_data_prices c = Some (Some (Document (JObject tiers)))
        \<and> map_of tiers ''minimum_price'' = Some (JString v)
        \<and> ob = \<lparr>obs_brand = capitalize (strip b), obs_pattern = capitalize (strip p),
                 obs_size = join '' '' (take 2 (split (strip s))),
                 obs_season = capitalize (strip t), obs_price = strip v\<rparr>)"
  unfolding dexel_tyre_def and_then_Inr attribute_of_Inr dexel_minimum_price_Inr
  by (rule iffI; clarsimp) 

lemma national_observation_Inr:
  "national_observation n = Inr ob \<longleftrightarrow>
     (\<exists>b l s se pr.
        data_brand n = Some b \<and> pattern_link n = Some l \<and> next_paragraph l = Some (Some s)
        \<and> data_tyre_season n = Some se \<and> data_price n = Some pr
        \<and> ob = \<lparr>obs_brand = strip b, obs_pattern = strip (link_text l), obs_size = strip s,
                 obs_season = strip se, obs_price = strip pr\<rparr>)"
  unfolding national_observation_def and_then_Inr attribute_of_Inr
  by (rule iffI; clarsimp)

section \<open>Facts about site B\<close>













section \<open>Facts about site A\<close>

lemma record_observation_frame:
  "actions (record_observation ob st) = actions st
   \<and> website (record_observation ob st) = website st
   \<and> contexts_made (record_observation ob st) = contexts_made st
   \<and> open_contexts (record_observation ob st) = open_contexts st
   \<and> tyres (record_observation ob st) = tyres st @ [row_of (website st) ob]"
  by (simp add: record_observation_def add_to_database_def info_def Let_def row_of_def)

lemma parse_html_frame:
  "parse_html cards st = (r, st') \<Longrightarrow>
     actions st' = actions st \<and> website st' = website st
     \<and> contexts_made st' = contexts_made st \<and> open_contexts st' = open_contexts st
     \<and> tyres st' = tyres st @ card_rows (website st) cards"
proof (induction cards arbitrary: st)
  case Nil
  then show ?case by simp
next
  case (Cons c cards)
  show ?case
  proof (cases "dexel_tyre c")
    case (Inl e)
    with Cons.prems show ?thesis by simp
  next
    case (Inr ob)
    with Cons.prems have "parse_html cards (record_observation ob st) = (r, st')" by simp
    from Cons.IH [OF this] Inr show ?thesis by (simp add: record_observation_frame)
  qed
qed

lemma act_frame:
  "actions (act c a st) = actions st @ [(c, a)] \<and> website (act c a st) = website st
   \<and> contexts_made (act c a st) = contexts_made st \<and> open_contexts (act c a st) = open_contexts st
   \<and> tyres (act c a st) = tyres st"
  by (simp add: act_def)

lemma info_frame:
  "actions (info r st) = actions st \<and> website (info r st) = website st
   \<and> contexts_made (info r st) = contexts_made st \<and> open_contexts (info r st) = open_contexts st
   \<and> tyres (info r st) = tyres st"
  by (simp add: info_def)

lemma shown_pages_simps:
  "shown_pages [] = []"
  "shown_pages ((c, PageContent p) # evs) = p # shown_pages evs"
  "shown_pages ((c, ClickPagination i) # evs) = shown_pages evs"
  "shown_pages (xs @ ys) = shown_pages xs @ shown_pages ys"
  by (simp_all add: shown_pages_def)

lemma pages_loop_terminates:
  assumes fw: "forward_links site inputs branch n"
  shows "\<exists>r st' evs rest. pages_loop site c branch inputs p st = Some (r, st')
      \<and> actions st' = actions st @ evs
      \<and> shown_pages evs = p # rest \<and> sorted_wrt (<) (p # rest)
      \<and> tyres st' = tyres st @
           concat (map (\<lambda>k. card_rows (website st) (products (results site inputs branch k))) (p # rest))"
proof (induction "n - p" arbitrary: p st rule: less_induct)
  case less
  let ?page = "results site inputs branch p"
  let ?rows = "\<lambda>k. card_rows (website st) (products (results site inputs branch k))"
  obtain r1 st1 where ph: "parse_html (products ?page) (act c (PageContent p) st) = (r1, st1)"
    by (cases "parse_html (products ?page) (act c (PageContent p) st)")
  from parse_html_frame [OF ph]
  have a1: "actions st1 = actions st @ [(c, PageContent p)]" and w1: "website st1 = website st"
    and t1: "tyres st1 = tyres st @ ?rows p"
    by (simp_all add: act_frame)
  have stop: "\<exists>r st' evs rest. X = Some (r, st')
      \<and> actions st' = actions st @ evs
      \<and> shown_pages evs = p # rest \<and> sorted_wrt (<) (p # rest)
      \<and> tyres st' = tyres st @ concat (map ?rows (p # rest))"
    if "X = Some (r0, st2)" "actions st2 = actions st1" "tyres st2 = tyres st1" for X r0 st2
  proof -
    from that a1 t1 have "X = Some (r0, st2) \<and> actions st2 = actions st @ [(c, PageContent p)]
      \<and> shown_pages [(c, PageContent p)] = p # [] \<and> sorted_wrt (<) (p # [])
      \<and> tyres st2 = tyres st @ concat (map ?rows (p # []))"
      by (simp add: shown_pages_simps)
    then show ?thesis by blast
  qed
  show ?case
  proof (cases r1)
    case (Inl e)
    with ph have "pages_loop site c branch inputs p st = Some (Inl e, st1)"
      by (subst pages_loop.simps) simp
    from stop [OF this] show ?thesis by simp
  next
    case r1: (Inr u)
    show ?thesis
    proof (cases "pagination_step (pagination ?page)")
      case (Inl e)
      with ph r1 have "pages_loop site c branch inputs p st = Some (Inl e, st1)"
        by (subst pages_loop.simps) simp
      from stop [OF this] show ?thesis by simp
    next
      case (Inr s)
      show ?thesis
      proof (cases s)
        case OnlyPage
        with ph r1 Inr have "pages_loop site c branch inputs p st = Some (Inr (), info (OnlyOnePage inputs) st1)"
          by (subst pages_loop.simps) simp
        from stop [OF this] show ?thesis by (simp add: info_frame)
      next
        case LastPage
        with ph r1 Inr have "pages_loop site c branch inputs p st = Some (Inr (), st1)"
          by (subst pages_loop.simps) simp
        from stop [OF this] show ?thesis by simp
      next
        case (Click i)
        show ?thesis
        proof (cases "nth_locator (anchors (pagination ?page)) i")
          case None
          with ph r1 Inr Click have "pages_loop site c branch inputs p st = Some (Inl TimeoutError, st1)"
            by (subst pages_loop.simps) simp
          from stop [OF this] show ?thesis by simp
        next
          case (Some next_page)
          let ?q = "leads_to next_page"
          let ?st2 = "act c (ClickPagination i) st1"
          from fw Inr Click Some have lt: "p < ?q" and le: "?q \<le> n"
            unfolding forward_links_def by blast+
          then have "n - ?q < n - p" by simp
          from less [OF this, of ?st2] obtain r st' evs rest where
            run: "pages_loop site c branch inputs ?q ?st2 = Some (r, st')"
            and a: "actions st' = actions ?st2 @ evs"
            and sh: "shown_pages evs = ?q # rest" and so: "sorted_wrt (<) (?q # rest)"
            and t: "tyres st' = tyres ?st2 @
               concat (map (\<lambda>k. card_rows (website ?st2) (products (results site inputs branch k))) (?q # rest))"
            by blast
          have eq: "pages_loop site c branch inputs p st = Some (r, st')"
            using ph r1 Inr Click Some run by (subst pages_loop.simps) simp
          have a': "actions st' = actions st @ ((c, PageContent p) # (c, ClickPagination i) # evs)"
            using a a1 by (simp add: act_frame)
          have sh': "shown_pages ((c, PageContent p) # (c, ClickPagination i) # evs) = p # ?q # rest"
            using sh by (simp add: shown_pages_simps)
          have so': "sorted_wrt (<) (p # ?q # rest)"
            using so lt by auto
          have t': "tyres st' = tyres st @ concat (map ?rows (p # ?q # rest))"
            using t t1 w1 by (simp add: act_frame)
          from eq a' sh' so' t' show ?thesis by blast
        qed
      qed
    qed
  qed
qed

lemma three_pages_forward: "forward_links three_pages q 0 3"
proof -
  have s1: "pagination_step (pagination (results three_pages q 0 1)) = Inr (Click 3)"
    and s2: "pagination_step (pagination (results three_pages q 0 2)) = Inr (Click (- 1))"
    and s3: "pagination_step (pagination (results three_pages q 0 3)) = Inr LastPage"
    by (simp_all add: three_pages_def) code_simp+
  have s4: "pagination_step (pagination (results three_pages q 0 p)) = Inr OnlyPage"
    if "p \<noteq> 1" "p \<noteq> 2" "p \<noteq> 3" for p
    using that by (simp add: three_pages_def pagination_step_def)
  have l1: "nth_locator (anchors (pagination (results three_pages q 0 1))) 3 = Some (numbered_link ''Next >'' 2)"
    and l2: "nth_locator (anchors (pagination (results three_pages q 0 2))) (- 1) = Some (numbered_link ''Next >'' 3)"
    by (simp_all add: three_pages_def nth_locator_def)
  show ?thesis
    unfolding forward_links_def
  proof (intro allI impI)
    fix p i next_page
    assume s: "pagination_step (pagination (results three_pages q 0 p)) = Inr (Click i)"
      and l: "nth_locator (anchors (pagination (results three_pages q 0 p))) i = Some next_page"
    consider (a) "p = 1" | (b) "p = 2" | (c) "p = 3" | (d) "p \<noteq> 1" "p \<noteq> 2" "p \<noteq> 3" by blast
    then show "p < leads_to next_page \<and> leads_to next_page \<le> 3"
    proof cases
      case a
      with s l s1 l1 show ?thesis by (auto simp: numbered_link_def)
    next
      case b
      with s l s2 l2 show ?thesis by (auto simp: numbered_link_def)
    next
      case c
      with s s3 show ?thesis by simp
    next
      case d
      with s s4 [of p] show ?thesis by simp
    qed
  qed
qed





lemma skeleton_paging: "list_all paging evs \<Longrightarrow> skeleton (map (Pair c) evs) = []"
  by (induction evs) (simp_all add: skeleton_def)

lemma skeleton_keep: "list_all (\<lambda>a. \<not> paging a) evs \<Longrightarrow> skeleton (map (Pair c) evs) = map (Pair c) evs"
  by (induction evs) (simp_all add: skeleton_def)














section \<open>The claims\<close>

text \<open>
  C8, as the code has it. The mapping of the bythjul script sends the two Swedish words to
  \<open>Winter\<close> and \<open>Summer\<close> and leaves every other string as it is, so on every string
  applying it twice is applying it once, and a season outside the mapped vocabulary passes
  through unchanged. The clean-up of site A (\<open>strip\<close>, then \<open>capitalize\<close>), of site B (\<open>strip\<close>)
  and of the store (\<open>lower\<close>) are idempotent on ASCII text.
\<close>

theorem season_normalization_idempotent:
  "bythjul_season (bythjul_season s) = bythjul_season s
   \<and> (s \<noteq> Vinterdaeck \<and> s \<noteq> Sommardaeck \<longrightarrow> bythjul_season s = s)
   \<and> (ascii_str s \<longrightarrow> dexel_season (dexel_season s) = dexel_season s)
   \<and> (ascii_str s \<longrightarrow> national_season (national_season s) = national_season s)
   \<and> (ascii_str s \<longrightarrow> lower (lower s) = lower s)"
  by (simp add: bythjul_season_def Vinterdaeck_def Sommardaeck_def dexel_season_idem
      national_season_def strip_idem lower_idem)

theorem season_normalization_idempotent_witness:
  "bythjul_season (bythjul_season Vinterdaeck) = bythjul_season Vinterdaeck
   \<and> bythjul_season Vinterdaeck = ''Winter''
   \<and> ''All season'' \<noteq> Vinterdaeck \<and> ''All season'' \<noteq> Sommardaeck
   \<and> bythjul_season ''All season'' = ''All season''
   \<and> ascii_str '' winter tyre ''
   \<and> dexel_season '' winter tyre '' = ''Winter tyre''
   \<and> dexel_season (dexel_season '' winter tyre '') = dexel_season '' winter tyre ''
   \<and> national_season (national_season '' winter tyre '') = national_season '' winter tyre ''"
proof -
  have 1: "bythjul_season Vinterdaeck = ''Winter''"
    by (simp add: bythjul_season_def)
  have 2: "''All season'' \<noteq> Vinterdaeck \<and> ''All season'' \<noteq> Sommardaeck"
    by (simp add: Vinterdaeck_def Sommardaeck_def)
  have 3: "ascii_str '' winter tyre ''" by code_simp
  have 4: "dexel_season '' winter tyre '' = ''Winter tyre''" by code_simp
  from 1 2 3 4 season_normalization_idempotent [of Vinterdaeck]
    season_normalization_idempotent [of "''All season''"]
    season_normalization_idempotent [of "'' winter tyre ''"]
  show ?thesis by blast
qed

text \<open>
  C8 as stated fails: the clean-up of site A is not idempotent on every season string.
  Python's \<open>capitalize\<close> turns U+0149 into U+02BC followed by \<open>N\<close>, and turns that into U+02BC
  followed by \<open>n\<close>.
\<close>

theorem capitalize_not_idempotent_counterexample:
  "dexel_season n_apostrophe = [CHR 0xCA, CHR 0xBC, CHR ''N'']
   \<and> dexel_season (dexel_season n_apostrophe) = [CHR 0xCA, CHR 0xBC, CHR ''n'']
   \<and> dexel_season (dexel_season n_apostrophe) \<noteq> dexel_season n_apostrophe"
  by code_simp

text \<open>
  C9, as the code has it. \<open>add_to_database\<close> appends one row that holds the website and the
  brand, pattern, size and price as given, and \<open>season.lower()\<close> as its season. For ASCII
  season text that value is ASCII text without a capital letter (\<open>Winter\<close> is stored as
  \<open>winter\<close>), and a table in which every season is such a text stays so under
  \<open>add_to_database\<close> and under any sequence of record operations whose seasons are ASCII.
\<close>

theorem add_to_database_lowercases_season:
  "(ascii_str season \<longrightarrow>
      tyres (add_to_database brand pattern sz season cost st) = tyres st @
        [\<lparr>website_name = website st, tyre_brand = brand, tyre_pattern = pattern, tyre_size = sz,
          seasonality = lower season, price = cost\<rparr>]
      \<and> ascii_str (lower season) \<and> lowercase (lower season) \<and> spec_all_lowercase (lower season)
      \<and> (seasons_lowercase (tyres st) \<longrightarrow>
            seasons_lowercase (tyres (add_to_database brand pattern sz season cost st))))
   \<and> lower ''Winter'' = ''winter''
   \<and> (list_all (\<lambda>ob. ascii_str (obs_season ob)) obs \<and> seasons_lowercase (tyres st) \<longrightarrow>
        seasons_lowercase (tyres (fold record_observation obs st)))"
proof -
  have 1: "tyres (add_to_database brand pattern sz season cost st) = tyres st @
     [\<lparr>website_name = website st, tyre_brand = brand, tyre_pattern = pattern, tyre_size = sz,
       seasonality = lower season, price = cost\<rparr>]"
    by (rule tyres_add_to_database)
  have 2: "ascii_str season \<longrightarrow>
      ascii_str (lower season) \<and> lowercase (lower season) \<and> spec_all_lowercase (lower season)"
    by (simp add: ascii_lower lowercase_lower spec_all_lowercase_def ascii_no_bold_capital)
  have 3: "lower ''Winter'' = ''winter''" by code_simp
  have 4: "ascii_str season \<longrightarrow> seasons_lowercase (tyres st) \<longrightarrow>
        seasons_lowercase (tyres (add_to_database brand pattern sz season cost st))"
    using seasons_add_to_database by blast
  have 5: "list_all (\<lambda>ob. ascii_str (obs_season ob)) obs \<and> seasons_lowercase (tyres st) \<longrightarrow>
        seasons_lowercase (tyres (fold record_observation obs st))"
    using seasons_fold_record_observation by blast
  from 1 2 3 4 5 show ?thesis by blast
qed

theorem add_to_database_lowercases_season_witness:
  "ascii_str ''Winter''
   \<and> seasons_lowercase (tyres (DexelScraper 0 []))
   \<and> tyres (add_to_database ''Michelin'' ''Alpin 6'' ''205/55 R16'' ''Winter'' ''120.00'' (DexelScraper 0 [])) =
       [\<lparr>website_name = ''Dexel'', tyre_brand = ''Michelin'', tyre_pattern = ''Alpin 6'',
         tyre_size = ''205/55 R16'', seasonality = ''winter'', price = ''120.00''\<rparr>]
   \<and> spec_all_lowercase ''winter''
   \<and> seasons_lowercase
        (tyres (add_to_database ''Michelin'' ''Alpin 6'' ''205/55 R16'' ''Winter'' ''120.00'' (DexelScraper 0 [])))"
proof -
  let ?st = "DexelScraper 0 []"
  have a: "ascii_str ''Winter''" by code_simp
  have s: "seasons_lowercase (tyres ?st)"
    by (simp add: DexelScraper_def TyreScraper_def seasons_lowercase_def)
  have w: "website ?st = ''Dexel''" "tyres ?st = []"
    by (simp_all add: DexelScraper_def TyreScraper_def)
  note T = add_to_database_lowercases_season [where season = "''Winter''" and st = ?st
      and brand = "''Michelin''" and pattern = "''Alpin 6''" and sz = "''205/55 R16''"
      and cost = "''120.00''"]
  from T a have l: "lower ''Winter'' = ''winter''" by blast
  from T a have r: "tyres (add_to_database ''Michelin'' ''Alpin 6'' ''205/55 R16'' ''Winter'' ''120.00'' ?st) =
      tyres ?st @ [\<lparr>website_name = website ?st, tyre_brand = ''Michelin'', tyre_pattern = ''Alpin 6'',
         tyre_size = ''205/55 R16'', seasonality = lower ''Winter'', price = ''120.00''\<rparr>]"
    by blast
  from T a have c: "spec_all_lowercase (lower ''Winter'')" by blast
  from T a s have i: "seasons_lowercase
        (tyres (add_to_database ''Michelin'' ''Alpin 6'' ''205/55 R16'' ''Winter'' ''120.00'' ?st))"
    by blast
  from r l w have r': "tyres (add_to_database ''Michelin'' ''Alpin 6'' ''205/55 R16'' ''Winter'' ''120.00'' ?st) =
       [\<lparr>website_name = ''Dexel'', tyre_brand = ''Michelin'', tyre_pattern = ''Alpin 6'',
         tyre_size = ''205/55 R16'', seasonality = ''winter'', price = ''120.00''\<rparr>]"
    by simp
  from c l have c': "spec_all_lowercase ''winter''" by simp
  from a s r' c' i show ?thesis by blast
qed

text \<open>
  C9 as stated fails: \<open>lower\<close> leaves an upper-case letter that has no lower case as it is.
  A season that is the letter U+1D400 is stored as that letter, which is not lower case.
\<close>

theorem capital_season_counterexample:
  "tyres (add_to_database ''Michelin'' ''Alpin 6'' ''205/55 R16'' bold_capital_a ''120.00'' (DexelScraper 0 [])) =
     [\<lparr>website_name = ''Dexel'', tyre_brand = ''Michelin'', tyre_pattern = ''Alpin 6'',
       tyre_size = ''205/55 R16'', seasonality = [CHR 0xF0, CHR 0x9D, CHR 0x90, CHR 0x80],
       price = ''120.00''\<rparr>]
   \<and> \<not> spec_all_lowercase [CHR 0xF0, CHR 0x9D, CHR 0x90, CHR 0x80]"
  by code_simp

text \<open>
  C2, as the code has it. Neither normaliser checks that a field is non-empty. A card is
  turned into an observation, and recorded, exactly when every element and attribute that
  the code reads is there: on site A the detail area with the values of its brand and
  pattern inputs, the size paragraph, the icon with its title, and the price box whose
  \<open>data-prices\<close> holds a JSON object with a text under \<open>minimum_price\<close>; on site B
  \<open>data-brand\<close>, the pattern link with a paragraph after its parent paragraph,
  \<open>data-tyre-season\<close> and \<open>data-price\<close>. Every other card raises, and no row is recorded for
  it. For a recorded card whose texts are ASCII, each of brand, size and price is empty
  exactly when its text in the card is empty or blank.
\<close>

theorem observation_fields_follow_card:
  "((\<exists>ob. dexel_tyre c = Inr ob) \<longleftrightarrow>
      (\<exists>d b p s t tiers v. detail_area c = Some d \<and> brand_input d = Some (Some b)
         \<and> pattern_input d = Some (Some p) \<and> para_text c = Some s \<and> icon_title c = Some (Some t)
         \<and> box_data_prices c = Some (Some (Document (JObject tiers)))
         \<and> map_of tiers ''minimum_price'' = Some (JString v)))
   \<and> ((\<exists>ob. national_observation n = Inr ob) \<longleftrightarrow>
      (\<exists>b l s se pr. data_brand n = Some b \<and> pattern_link n = Some l
         \<and> next_paragraph l = Some (Some s) \<and> data_tyre_season n = Some se \<and> data_price n = Some pr))
   \<and> ((\<forall>ob. dexel_tyre c \<noteq> Inr ob) \<longrightarrow> (\<exists>e. dexel_tyre c = Inl e))
   \<and> ((\<forall>ob. national_observation n \<noteq> Inr ob) \<longrightarrow> (\<exists>e. national_observation n = Inl e))
   \<and> (dexel_tyre c = Inr ob \<longrightarrow>
      parse_html (c # cards) st = parse_html cards (record_observation ob st)
      \<and> (\<exists>d b s tiers v. detail_area c = Some d \<and> brand_input d = Some (Some b) \<and> para_text c = Some s
         \<and> box_data_prices c = Some (Some (Document (JObject tiers)))
         \<and> map_of tiers ''minimum_price'' = Some (JString v)
         \<and> (ascii_str b \<longrightarrow> (obs_brand ob = [] \<longleftrightarrow> list_all is_space b))
         \<and> (ascii_str s \<longrightarrow> (obs_size ob = [] \<longleftrightarrow> list_all is_space s))
         \<and> (ascii_str v \<longrightarrow> (obs_price ob = [] \<longleftrightarrow> list_all is_space v))))
   \<and> (national_observation n = Inr ob' \<longrightarrow>
      add_national_tyres (n # others) st = add_national_tyres others (record_observation ob' st)
      \<and> (\<exists>b l s pr. data_brand n = Some b \<and> pattern_link n = Some l
         \<and> next_paragraph l = Some (Some s) \<and> data_price n = Some pr
         \<and> (ascii_str b \<longrightarrow> (obs_brand ob' = [] \<longleftrightarrow> list_all is_space b))
         \<and> (ascii_str s \<longrightarrow> (obs_size ob' = [] \<longleftrightarrow> list_all is_space s))
         \<and> (ascii_str pr \<longrightarrow> (obs_price ob' = [] \<longleftrightarrow> list_all is_space pr))))
   \<and> (dexel_tyre c = Inl e \<longrightarrow> parse_html (c # cards) st = (Inl e, st))
   \<and> (national_observation n = Inl e \<longrightarrow> add_national_tyres (n # others) st = (Inl e, st))"
proof -
  have 1: "(\<exists>ob. dexel_tyre c = Inr ob) \<longleftrightarrow>
      (\<exists>d b p s t tiers v. detail_area c = Some d \<and> brand_input d = Some (Some b)
         \<and> pattern_input d = Some (Some p) \<and> para_text c = Some s \<and> icon_title c = Some (Some t)
         \<and> box_data_prices c = Some (Some (Document (JObject tiers)))
         \<and> map_of tiers ''minimum_price'' = Some (JString v))"
    unfolding dexel_tyre_Inr by blast
  have 2: "(\<exists>ob. national_observation n = Inr ob) \<longleftrightarrow>
      (\<exists>b l s se pr. data_brand n = Some b \<and> pattern_link n = Some l
         \<and> next_paragraph l = Some (Some s) \<and> data_tyre_season n = Some se \<and> data_price n = Some pr)"
    unfolding national_observation_Inr by blast
  have 3: "(\<forall>ob. dexel_tyre c \<noteq> Inr ob) \<longrightarrow> (\<exists>e. dexel_tyre c = Inl e)"
    by (cases "dexel_tyre c") simp_all
  have 4: "(\<forall>ob. national_observation n \<noteq> Inr ob) \<longrightarrow> (\<exists>e. national_observation n = Inl e)"
    by (cases "national_observation n") simp_all
  have 5: "dexel_tyre c = Inr ob \<longrightarrow>
      parse_html (c # cards) st = parse_html cards (record_observation ob st)"
    by simp
  have e5: "dexel_tyre c = Inr ob \<longrightarrow>
      (\<exists>d b s tiers v. detail_area c = Some d \<and> brand_input d = Some (Some b) \<and> para_text c = Some s
         \<and> box_data_prices c = Some (Some (Document (JObject tiers)))
         \<and> map_of tiers ''minimum_price'' = Some (JString v)
         \<and> (ascii_str b \<longrightarrow> (obs_brand ob = [] \<longleftrightarrow> list_all is_space b))
         \<and> (ascii_str s \<longrightarrow> (obs_size ob = [] \<longleftrightarrow> list_all is_space s))
         \<and> (ascii_str v \<longrightarrow> (obs_price ob = [] \<longleftrightarrow> list_all is_space v)))"
    by (auto simp: dexel_tyre_Inr capitalize_Nil_iff strip_Nil_iff size_Nil_iff)
  have 6: "national_observation n = Inr ob' \<longrightarrow>
      add_national_tyres (n # others) st = add_national_tyres others (record_observation ob' st)"
    by simp
  have e6: "national_observation n = Inr ob' \<longrightarrow>
      (\<exists>b l s pr. data_brand n = Some b \<and> pattern_link n = Some l
         \<and> next_paragraph l = Some (Some s) \<and> data_price n = Some pr
         \<and> (ascii_str b \<longrightarrow> (obs_brand ob' = [] \<longleftrightarrow> list_all is_space b))
         \<and> (ascii_str s \<longrightarrow> (obs_size ob' = [] \<longleftrightarrow> list_all is_space s))
         \<and> (ascii_str pr \<longrightarrow> (obs_price ob' = [] \<longleftrightarrow> list_all is_space pr)))"
    by (auto simp: national_observation_Inr strip_Nil_iff)
  have 7: "dexel_tyre c = Inl e \<longrightarrow> parse_html (c # cards) st = (Inl e, st)" by simp
  have 8: "national_observation n = Inl e \<longrightarrow> add_national_tyres (n # others) st = (Inl e, st)"
    by simp
  from 1 2 3 4 5 e5 6 e6 7 8 show ?thesis by blast
qed

theorem observation_fields_follow_card_witness:
  "dexel_tyre blank_brand_card =
     Inr \<lparr>obs_brand = [], obs_pattern = ''Primacy 4'', obs_size = ''205/55 R16'',
          obs_season = ''Summer'', obs_price = ''120.00''\<rparr>
   \<and> national_observation michelin_card =
     Inr \<lparr>obs_brand = ''michelin'', obs_pattern = ''pilot sport 4'', obs_size = ''205/55 R16 91V'',
          obs_season = ''Summer'', obs_price = ''89.99''\<rparr>
   \<and> (\<exists>d b s tiers v. detail_area blank_brand_card = Some d \<and> brand_input d = Some (Some b)
         \<and> para_text blank_brand_card = Some s
         \<and> box_data_prices blank_brand_card = Some (Some (Document (JObject tiers)))
         \<and> map_of tiers ''minimum_price'' = Some (JString v)
         \<and> ascii_str b \<and> list_all is_space b \<and> ascii_str s \<and> \<not> list_all is_space s
         \<and> ascii_str v \<and> \<not> list_all is_space v)
   \<and> dexel_tyre no_brand_card = Inl AttributeError
   \<and> parse_html [no_brand_card, pilot_card] (DexelScraper 0 []) = (Inl AttributeError, DexelScraper 0 [])
   \<and> dexel_tyre malformed_price_card = Inl JSONDecodeError
   \<and> parse_html [malformed_price_card, pilot_card] (DexelScraper 0 []) =
       (Inl JSONDecodeError, DexelScraper 0 [])
   \<and> dexel_tyre no_minimum_card = Inl AttributeError
   \<and> national_observation no_price_card = Inl AttributeError
   \<and> add_national_tyres [no_price_card, michelin_card] (NationalTyreExtractor 0 []) =
       (Inl AttributeError, NationalTyreExtractor 0 [])"
proof -
  let ?ob = "\<lparr>obs_brand = [], obs_pattern = ''Primacy 4'', obs_size = ''205/55 R16'',
          obs_season = ''Summer'', obs_price = ''120.00''\<rparr>"
  let ?ob' = "\<lparr>obs_brand = ''michelin'', obs_pattern = ''pilot sport 4'', obs_size = ''205/55 R16 91V'',
          obs_season = ''Summer'', obs_price = ''89.99''\<rparr>"
  have 1: "dexel_tyre blank_brand_card = Inr ?ob" by code_simp
  have 2: "national_observation michelin_card = Inr ?ob'" by code_simp
  have 3: "dexel_tyre no_brand_card = Inl AttributeError" by code_simp
  have 4: "national_observation no_price_card = Inl AttributeError" by code_simp
  have m1: "dexel_tyre malformed_price_card = Inl JSONDecodeError" by code_simp
  have m2: "dexel_tyre no_minimum_card = Inl AttributeError" by code_simp
  from observation_fields_follow_card [where c = malformed_price_card and e = JSONDecodeError
      and cards = "[pilot_card]" and st = "DexelScraper 0 []"] m1
  have m3: "parse_html [malformed_price_card, pilot_card] (DexelScraper 0 []) =
       (Inl JSONDecodeError, DexelScraper 0 [])"
    by blast
  have 5: "ascii_str '' '' \<and> ascii_str ''205/55 R16 91V'' \<and> ascii_str ''120.00''
      \<and> list_all is_space '' '' \<and> \<not> list_all is_space ''205/55 R16 91V''
      \<and> \<not> list_all is_space ''120.00''"
    by code_simp
  have 6: "detail_area blank_brand_card =
        Some \<lparr>brand_input = Some (Some '' ''), pattern_input = Some (Some ''primacy 4'')\<rparr>
      \<and> para_text blank_brand_card = Some ''205/55 R16 91V''
      \<and> box_data_prices blank_brand_card = Some (Some (Document (JObject
           [(''minimum_price'', JString ''120.00''), (''other_tier'', JString ''150.00'')])))"
    by (simp add: blank_brand_card_def dexel_card_def spec_payload_def)
  have 7: "\<exists>d b s tiers v. detail_area blank_brand_card = Some d \<and> brand_input d = Some (Some b)
         \<and> para_text blank_brand_card = Some s
         \<and> box_data_prices blank_brand_card = Some (Some (Document (JObject tiers)))
         \<and> map_of tiers ''minimum_price'' = Some (JString v)
         \<and> ascii_str b \<and> list_all is_space b \<and> ascii_str s \<and> \<not> list_all is_space s
         \<and> ascii_str v \<and> \<not> list_all is_space v"
    using 5 6 by simp
  from observation_fields_follow_card [where c = no_brand_card and e = AttributeError
      and cards = "[pilot_card]" and st = "DexelScraper 0 []"] 3
  have 8: "parse_html [no_brand_card, pilot_card] (DexelScraper 0 []) = (Inl AttributeError, DexelScraper 0 [])"
    by blast
  from observation_fields_follow_card [where n = no_price_card and e = AttributeError
      and others = "[michelin_card]" and st = "NationalTyreExtractor 0 []"] 4
  have 9: "add_national_tyres [no_price_card, michelin_card] (NationalTyreExtractor 0 []) =
       (Inl AttributeError, NationalTyreExtractor 0 [])"
    by blast
  from 1 2 3 4 7 8 9 m1 m2 m3 show ?thesis by blast
qed


text \<open>
  C2 as stated fails: a site A card whose brand input holds a blank is recorded, with an
  empty brand.
\<close>

theorem empty_brand_counterexample:
  "parse_html [blank_brand_card] (DexelScraper 0 []) =
     (Inr (), (DexelScraper 0 [])\<lparr>
        tyres := [\<lparr>website_name = ''Dexel'', tyre_brand = [], tyre_pattern = ''Primacy 4'',
                   tyre_size = ''205/55 R16'', seasonality = ''summer'', price = ''120.00''\<rparr>],
        logged := [AddingTyre ''Dexel'' [] ''Primacy 4'' ''205/55 R16'' ''Summer'' ''120.00'']\<rparr>)"
  by code_simp

text \<open>
  C4, as the code has it. The price of a site A observation is the text stored under the
  key \<open>minimum_price\<close> of the payload, trimmed, whatever the other tiers hold; a payload
  without a text under that key is a failure. For the payload of the specification the
  price is \<open>120.00\<close>.
\<close>

theorem minimum_price_tier:
  "(dexel_tyre c = Inr ob \<longrightarrow>
      (\<exists>tiers v. box_data_prices c = Some (Some (Document (JObject tiers)))
         \<and> map_of tiers ''minimum_price'' = Some (JString v) \<and> obs_price ob = strip v))
   \<and> dexel_minimum_price (Some (Document (JObject tiers'))) =
       (case map_of tiers' ''minimum_price'' of
          Some (JString v) \<Rightarrow> Inr (strip v) | _ \<Rightarrow> Inl AttributeError)
   \<and> dexel_minimum_price (Some spec_payload) = Inr ''120.00''"
proof -
  have 1: "dexel_tyre c = Inr ob \<longrightarrow>
      (\<exists>tiers v. box_data_prices c = Some (Some (Document (JObject tiers)))
         \<and> map_of tiers ''minimum_price'' = Some (JString v) \<and> obs_price ob = strip v)"
    by (auto simp: dexel_tyre_Inr)
  have 2: "dexel_minimum_price (Some (Document (JObject tiers'))) =
       (case map_of tiers' ''minimum_price'' of
          Some (JString v) \<Rightarrow> Inr (strip v) | _ \<Rightarrow> Inl AttributeError)"
    by (simp add: dexel_minimum_price_def and_then_def json_loads_def dict_get_def str_strip_def
        split: option.splits json.splits)
  have 3: "dexel_minimum_price (Some spec_payload) = Inr ''120.00''"
    by code_simp
  from 1 2 3 show ?thesis by blast
qed

theorem minimum_price_tier_witness:
  "dexel_tyre pilot_card =
     Inr \<lparr>obs_brand = ''Pilot sport'', obs_pattern = ''Primacy 4'', obs_size = ''205/55 R16'',
          obs_season = ''Summer'', obs_price = ''120.00''\<rparr>
   \<and> (\<exists>tiers v. box_data_prices pilot_card = Some (Some (Document (JObject tiers)))
         \<and> map_of tiers ''minimum_price'' = Some (JString v) \<and> ''120.00'' = strip v)"
proof -
  have 1: "dexel_tyre pilot_card =
     Inr \<lparr>obs_brand = ''Pilot sport'', obs_pattern = ''Primacy 4'', obs_size = ''205/55 R16'',
          obs_season = ''Summer'', obs_price = ''120.00''\<rparr>"
    by code_simp
  from 1 minimum_price_tier [of pilot_card
      "\<lparr>obs_brand = ''Pilot sport'', obs_pattern = ''Primacy 4'', obs_size = ''205/55 R16'',
          obs_season = ''Summer'', obs_price = ''120.00''\<rparr>"]
  show ?thesis by simp
qed

text \<open>
  C4 as stated fails: for the payload \<open>{"minimum_price": "150.00", "other_tier": "120.00"}\<close>
  the price is \<open>150.00\<close>, and the least price among the tiers is \<open>120.00\<close>.
\<close>

theorem minimum_among_tiers_counterexample:
  "dexel_tyre swapped_card =
     Inr \<lparr>obs_brand = ''Michelin'', obs_pattern = ''Primacy 4'', obs_size = ''205/55 R16'',
          obs_season = ''Summer'', obs_price = ''150.00''\<rparr>
   \<and> box_data_prices swapped_card = Some (Some (Document (JObject swapped_tiers)))
   \<and> spec_minimum_among_tiers swapped_tiers = Some ''120.00''"
  by code_simp

text \<open>
  C5, as the code has it. For a card whose brand and pattern texts are ASCII: on site A the
  brand and the pattern are the card's texts trimmed and then capitalised, the first
  character in upper case and every other character in lower case; on site B they are the
  card's texts trimmed, in the case the site gives them.
\<close>

theorem brand_and_pattern_cleanup:
  "(dexel_tyre c = Inr ob \<longrightarrow>
      (\<exists>d b p. detail_area c = Some d \<and> brand_input d = Some (Some b) \<and> pattern_input d = Some (Some p)
         \<and> (ascii_str b \<longrightarrow> obs_brand ob = capitalize (strip b))
         \<and> (ascii_str p \<longrightarrow> obs_pattern ob = capitalize (strip p))))
   \<and> (national_observation n = Inr ob' \<longrightarrow>
      (\<exists>b l. data_brand n = Some b \<and> pattern_link n = Some l
         \<and> (ascii_str b \<longrightarrow> obs_brand ob' = strip b)
         \<and> (ascii_str (link_text l) \<longrightarrow> obs_pattern ob' = strip (link_text l))))"
  by (auto simp: dexel_tyre_Inr national_observation_Inr)

theorem brand_and_pattern_cleanup_witness:
  "dexel_tyre pilot_card =
     Inr \<lparr>obs_brand = ''Pilot sport'', obs_pattern = ''Primacy 4'', obs_size = ''205/55 R16'',
          obs_season = ''Summer'', obs_price = ''120.00''\<rparr>
   \<and> (\<exists>d b p. detail_area pilot_card = Some d \<and> brand_input d = Some (Some b)
         \<and> pattern_input d = Some (Some p) \<and> ascii_str b \<and> ascii_str p
         \<and> ''Pilot sport'' = capitalize (strip b) \<and> ''Primacy 4'' = capitalize (strip p))
   \<and> national_observation michelin_card =
     Inr \<lparr>obs_brand = ''michelin'', obs_pattern = ''pilot sport 4'', obs_size = ''205/55 R16 91V'',
          obs_season = ''Summer'', obs_price = ''89.99''\<rparr>
   \<and> (\<exists>b l. data_brand michelin_card = Some b \<and> pattern_link michelin_card = Some l
         \<and> ascii_str b \<and> ascii_str (link_text l)
         \<and> ''michelin'' = strip b \<and> ''pilot sport 4'' = strip (link_text l))"
proof -
  let ?ob = "\<lparr>obs_brand = ''Pilot sport'', obs_pattern = ''Primacy 4'', obs_size = ''205/55 R16'',
          obs_season = ''Summer'', obs_price = ''120.00''\<rparr>"
  let ?ob' = "\<lparr>obs_brand = ''michelin'', obs_pattern = ''pilot sport 4'', obs_size = ''205/55 R16 91V'',
          obs_season = ''Summer'', obs_price = ''89.99''\<rparr>"
  have 1: "dexel_tyre pilot_card = Inr ?ob" by code_simp
  have 2: "national_observation michelin_card = Inr ?ob'" by code_simp
  have 3: "detail_area pilot_card =
      Some \<lparr>brand_input = Some (Some ''pilot sport''), pattern_input = Some (Some ''primacy 4'')\<rparr>"
    by (simp add: pilot_card_def dexel_card_def)
  have 4: "data_brand michelin_card = Some ''michelin''"
    "pattern_link michelin_card =
       Some \<lparr>link_text = ''pilot sport 4'', next_paragraph = Some (Some ''205/55 R16 91V'')\<rparr>"
    by (simp_all add: michelin_card_def national_card_def)
  have 5: "ascii_str ''pilot sport''" "ascii_str ''primacy 4''" "ascii_str ''michelin''"
    "ascii_str ''pilot sport 4''"
    by code_simp+
  note T = brand_and_pattern_cleanup [of pilot_card ?ob michelin_card ?ob']
  from T 1 obtain d b p where a: "detail_area pilot_card = Some d" "brand_input d = Some (Some b)"
    "pattern_input d = Some (Some p)" "ascii_str b \<longrightarrow> obs_brand ?ob = capitalize (strip b)"
    "ascii_str p \<longrightarrow> obs_pattern ?ob = capitalize (strip p)"
    by blast
  from a(1,2,3) 3 have "b = ''pilot sport''" "p = ''primacy 4''" by auto
  with a 5 have 6: "\<exists>d b p. detail_area pilot_card = Some d \<and> brand_input d = Some (Some b)
         \<and> pattern_input d = Some (Some p) \<and> ascii_str b \<and> ascii_str p
         \<and> ''Pilot sport'' = capitalize (strip b) \<and> ''Primacy 4'' = capitalize (strip p)"
    by auto
  from T 2 obtain b' l where c: "data_brand michelin_card = Some b'" "pattern_link michelin_card = Some l"
    "ascii_str b' \<longrightarrow> obs_brand ?ob' = strip b'"
    "ascii_str (link_text l) \<longrightarrow> obs_pattern ?ob' = strip (link_text l)"
    by blast
  from c(1,2) 4 have "b' = ''michelin''" "link_text l = ''pilot sport 4''" by auto
  with c 5 have 7: "\<exists>b l. data_brand michelin_card = Some b \<and> pattern_link michelin_card = Some l
         \<and> ascii_str b \<and> ascii_str (link_text l)
         \<and> ''michelin'' = strip b \<and> ''pilot sport 4'' = strip (link_text l)"
    by auto
  from 1 2 6 7 show ?thesis by blast
qed

text \<open>
  C5 as stated fails: site A turns \<open>pilot sport\<close> into \<open>Pilot sport\<close>, and site B leaves
  \<open>michelin\<close> and \<open>pilot sport 4\<close> as they are; in title case they are \<open>Pilot Sport\<close>,
  \<open>Michelin\<close> and \<open>Pilot Sport 4\<close>.
\<close>

theorem title_case_counterexample:
  "dexel_tyre pilot_card =
     Inr \<lparr>obs_brand = ''Pilot sport'', obs_pattern = ''Primacy 4'', obs_size = ''205/55 R16'',
          obs_season = ''Summer'', obs_price = ''120.00''\<rparr>
   \<and> spec_title_case (strip ''pilot sport'') = ''Pilot Sport''
   \<and> national_observation michelin_card =
     Inr \<lparr>obs_brand = ''michelin'', obs_pattern = ''pilot sport 4'', obs_size = ''205/55 R16 91V'',
          obs_season = ''Summer'', obs_price = ''89.99''\<rparr>
   \<and> spec_title_case (strip ''michelin'') = ''Michelin''
   \<and> spec_title_case (strip ''pilot sport 4'') = ''Pilot Sport 4''"
  by code_simp




text \<open>
  C10. When the status check of \<open>fetch_html\<close> raises, the time of the last request is
  already the time at which the failed request completed, and it stays so. A later
  \<open>fetch_html_timed\<close>, called within one second of that time, sleeps for the rest of the
  second and sends its request exactly one second after the failed request completed.
  (\<open>fetch_html_timed\<close> itself turns the failure into a \<open>RuntimeError\<close>. A clock reading of
  exactly zero counts as no earlier request, as \<open>if self.last_request_time:\<close> has it.)
\<close>

theorem failed_fetch_still_throttles:
  assumes "www url = Response d True body"
    and "fetch_html www url st = (r, st1)"
    and "monotonic st1 \<noteq> 0"
    and "last_request_time st2 = last_request_time st1"
    and "monotonic st2 = monotonic st1 + e" and "0 \<le> e" and "e \<le> 1"
    and "sent st2 = sent st1"
    and "www url' = Response d' status_error' body'"
  shows "r = Inl HTTPError
    \<and> monotonic st1 = monotonic st + d
    \<and> last_request_time st1 = Some (monotonic st + d)
    \<and> throttle st2 = sleep (1 - e) st2
    \<and> monotonic (throttle st2) = monotonic st1 + 1
    \<and> fst (fetch_html_timed www url st) = Inl RuntimeError
    \<and> sent (snd (fetch_html_timed www url' st2)) = sent st1 @
         [\<lparr>req_url = url', issued_at = monotonic st1 + 1, completed_at = monotonic st1 + 1 + d'\<rparr>]"
proof -
  from assms(1,2) have 1: "r = Inl HTTPError" and 2: "monotonic st1 = monotonic st + d"
    and 3: "last_request_time st1 = Some (monotonic st + d)"
    by (auto simp: fetch_html_def Let_def)
  from assms(3,4,5,7) 2 3 have 4: "throttle st2 = sleep (1 - e) st2"
    by (simp add: throttle_def Let_def)
  with assms(5) have 5: "monotonic (throttle st2) = monotonic st1 + 1"
    by (simp add: sleep_def)
  have 6: "fst (fetch_html_timed www url st) = Inl RuntimeError"
    using assms(1)
    by (simp add: fetch_html_timed_def fetch_html_def Let_def is_request_exception_def
        split: prod.splits)
  have 7: "sent (snd (fetch_html_timed www url' st2)) = sent st1 @
         [\<lparr>req_url = url', issued_at = monotonic st1 + 1, completed_at = monotonic st1 + 1 + d'\<rparr>]"
    using assms(5,8,9) 4
    by (simp add: fetch_html_timed_def fetch_html_def Let_def sleep_def split: prod.splits)
  from 1 2 3 4 5 6 7 show ?thesis by blast
qed

theorem failed_fetch_still_throttles_witness:
  "failing_site ''https://www.national.co.uk/gone'' = Response (1/4) True empty_soup
   \<and> fetch_html failing_site ''https://www.national.co.uk/gone'' (NationalTyreExtractor 10 []) =
        (Inl HTTPError, after_failure)
   \<and> last_request_time after_failure = Some (41/4)
   \<and> monotonic (sleep (1/2) after_failure) = 43/4
   \<and> monotonic (throttle (sleep (1/2) after_failure)) = 45/4
   \<and> sent (snd (fetch_html_timed failing_site ''https://www.national.co.uk/branches''
         (sleep (1/2) after_failure))) =
       [\<lparr>req_url = ''https://www.national.co.uk/gone'', issued_at = 10, completed_at = 41/4\<rparr>,
        \<lparr>req_url = ''https://www.national.co.uk/branches'', issued_at = 45/4, completed_at = 23/2\<rparr>]"
proof -
  let ?st = "NationalTyreExtractor 10 []"
  let ?st2 = "sleep (1/2) after_failure"
  have w: "failing_site ''https://www.national.co.uk/gone'' = Response (1/4) True empty_soup"
    by (simp add: failing_site_def)
  have w': "failing_site ''https://www.national.co.uk/branches'' = Response (1/4) False empty_soup"
    by (simp add: failing_site_def)
  have f: "fetch_html failing_site ''https://www.national.co.uk/gone'' ?st =
      (fst (fetch_html failing_site ''https://www.national.co.uk/gone'' ?st), after_failure)"
    by (simp add: after_failure_def)
  have m: "monotonic after_failure = 41/4" and s: "sent after_failure =
      [\<lparr>req_url = ''https://www.national.co.uk/gone'', issued_at = 10, completed_at = 41/4\<rparr>]"
    by (simp_all add: after_failure_def fetch_html_def w Let_def NationalTyreExtractor_def TyreScraper_def)
  have n: "monotonic after_failure \<noteq> 0" using m by simp
  have t: "monotonic ?st2 = monotonic after_failure + 1/2" by (simp add: sleep_def)
  have l: "last_request_time ?st2 = last_request_time after_failure" by (simp add: sleep_def)
  have s2: "sent ?st2 = sent after_failure" by (simp add: sleep_def)
  have e0: "(0::real) \<le> 1/2" and e1: "(1/2::real) \<le> 1" by simp_all
  note T = failed_fetch_still_throttles [OF w f n l t e0 e1 s2 w']
  from T have r: "fst (fetch_html failing_site ''https://www.national.co.uk/gone'' ?st) = Inl HTTPError"
    by blast
  from T have lr: "last_request_time after_failure = Some (monotonic ?st + 1/4)"
    by blast
  from T have th: "monotonic (throttle ?st2) = monotonic after_failure + 1"
    by blast
  from T have se: "sent (snd (fetch_html_timed failing_site ''https://www.national.co.uk/branches'' ?st2)) =
        sent after_failure @ [\<lparr>req_url = ''https://www.national.co.uk/branches'',
          issued_at = monotonic after_failure + 1, completed_at = monotonic after_failure + 1 + 1/4\<rparr>]"
    by blast
  have 1: "fetch_html failing_site ''https://www.national.co.uk/gone'' ?st = (Inl HTTPError, after_failure)"
    using f r by simp
  have 2: "last_request_time after_failure = Some (41/4)"
    using lr by (simp add: NationalTyreExtractor_def TyreScraper_def)
  have 3: "monotonic ?st2 = 43/4" using t m by simp
  have 4: "monotonic (throttle ?st2) = 45/4" using th m by simp
  have 5: "sent (snd (fetch_html_timed failing_site ''https://www.national.co.uk/branches'' ?st2)) =
       [\<lparr>req_url = ''https://www.national.co.uk/gone'', issued_at = 10, completed_at = 41/4\<rparr>,
        \<lparr>req_url = ''https://www.national.co.uk/branches'', issued_at = 45/4, completed_at = 23/2\<rparr>]"
    using se m s by simp
  from w 1 2 3 4 5 show ?thesis by blast
qed

text \<open>
  C3 does not hold of the code: \<open>find_branch_postcodes\<close> and \<open>extract_data\<close> call
  \<open>fetch_html\<close>, not \<open>fetch_html_timed\<close>, so nothing waits between two requests. On a site
  whose pages answer after a quarter of a second, the seven requests of a run complete a
  quarter of a second apart, each sent at the moment the one before completed; two calls
  of \<open>fetch_html_timed\<close> on the same site complete five quarters of a second apart.
\<close>

theorem national_requests_not_throttled:
  "map (\<lambda>r. (issued_at r, completed_at r))
     (sent (snd (national_scrape rev four_branches [(205, 55, 16)] (NationalTyreExtractor 10 [])))) =
   [(10, 41/4), (41/4, 21/2), (21/2, 43/4), (43/4, 11), (11, 45/4), (45/4, 23/2), (23/2, 47/4)]
   \<and> map (\<lambda>r. (issued_at r, completed_at r))
     (sent (snd (fetch_html_timed four_branches ''https://www.national.co.uk/b1''
        (snd (fetch_html_timed four_branches ''https://www.national.co.uk/branches''
           (NationalTyreExtractor 10 [])))))) =
   [(10, 41/4), (45/4, 23/2)]"
  by code_simp

text \<open>
  C1. The loop of \<open>scrape_branch\<close> hands the page it is on to \<open>parse_html\<close> once and then
  reads the footer. A footer without links ends the loop after this one page, with a log
  line and no error. If the text of the last link contains \<open>Last\<close>, the loop clicks the
  link at index \<open>N - 2\<close> of the \<open>N\<close> links, the second-to-last one when there are two or
  more, and goes on with the page that link loads. Otherwise, if the last list item has
  the class \<open>active\<close>, the loop ends without a click; and otherwise it clicks the last link
  and goes on. On a result set of \<open>n\<close> pages in which the link that the loop clicks leads to
  a later page, the loop returns; the pages it handed to \<open>parse_html\<close> are in increasing
  order, so no page is visited twice, and the table gains the rows of each of these pages
  once, in that order.
\<close>

theorem pagination_loop_three_way:
  "(anchors footer = [] \<longrightarrow> pagination_step footer = Inr OnlyPage)
   \<and> (anchors footer \<noteq> [] \<and> contains ''Last'' (strip (anchor_text (last (anchors footer)))) \<longrightarrow>
        pagination_step footer = Inr (Click (int (length (anchors footer)) - 2))
        \<and> (2 \<le> length (anchors footer) \<longrightarrow>
             nth_locator (anchors footer) (int (length (anchors footer)) - 2) =
               Some (anchors footer ! (length (anchors footer) - 2))))
   \<and> (anchors footer \<noteq> [] \<and> \<not> contains ''Last'' (strip (anchor_text (last (anchors footer))))
        \<and> item_classes footer \<noteq> [] \<and> last (item_classes footer) = Some ''active'' \<longrightarrow>
        pagination_step footer = Inr LastPage)
   \<and> (anchors footer \<noteq> [] \<and> \<not> contains ''Last'' (strip (anchor_text (last (anchors footer))))
        \<and> item_classes footer \<noteq> [] \<and> last (item_classes footer) \<noteq> Some ''active'' \<longrightarrow>
        pagination_step footer = Inr (Click (- 1))
        \<and> nth_locator (anchors footer) (- 1) = Some (last (anchors footer)))
   \<and> (pagination_step (pagination (results site inputs branch p)) = Inr OnlyPage \<longrightarrow>
        pages_loop site c branch inputs p st =
          (case parse_html (products (results site inputs branch p)) (act c (PageContent p) st) of
             (Inl e, st1) \<Rightarrow> Some (Inl e, st1)
           | (Inr u, st1) \<Rightarrow> Some (Inr (), info (OnlyOnePage inputs) st1)))
   \<and> (pagination_step (pagination (results site inputs branch p)) = Inr LastPage \<longrightarrow>
        pages_loop site c branch inputs p st =
          (case parse_html (products (results site inputs branch p)) (act c (PageContent p) st) of
             (Inl e, st1) \<Rightarrow> Some (Inl e, st1)
           | (Inr u, st1) \<Rightarrow> Some (Inr (), st1)))
   \<and> (pagination_step (pagination (results site inputs branch p)) = Inr (Click i)
        \<and> nth_locator (anchors (pagination (results site inputs branch p))) i = Some next_page \<longrightarrow>
        pages_loop site c branch inputs p st =
          (case parse_html (products (results site inputs branch p)) (act c (PageContent p) st) of
             (Inl e, st1) \<Rightarrow> Some (Inl e, st1)
           | (Inr u, st1) \<Rightarrow>
               pages_loop site c branch inputs (leads_to next_page) (act c (ClickPagination i) st1)))
   \<and> (forward_links site inputs branch n \<longrightarrow>
        (\<exists>r st' evs rest. pages_loop site c branch inputs p st = Some (r, st')
           \<and> actions st' = actions st @ evs
           \<and> shown_pages evs = p # rest \<and> sorted_wrt (<) (p # rest) \<and> distinct (p # rest)
           \<and> tyres st' = tyres st @
                concat (map (\<lambda>k. card_rows (website st) (products (results site inputs branch k))) (p # rest))))"
proof -
  have 1: "anchors footer = [] \<longrightarrow> pagination_step footer = Inr OnlyPage"
    by (simp add: pagination_step_def)
  have 2: "anchors footer \<noteq> [] \<and> contains ''Last'' (strip (anchor_text (last (anchors footer)))) \<longrightarrow>
        pagination_step footer = Inr (Click (int (length (anchors footer)) - 2))
        \<and> (2 \<le> length (anchors footer) \<longrightarrow>
             nth_locator (anchors footer) (int (length (anchors footer)) - 2) =
               Some (anchors footer ! (length (anchors footer) - 2)))"
    by (auto simp: pagination_step_def nth_locator_def nat_diff_distrib')
  have 3: "anchors footer \<noteq> [] \<and> \<not> contains ''Last'' (strip (anchor_text (last (anchors footer))))
        \<and> item_classes footer \<noteq> [] \<and> last (item_classes footer) = Some ''active'' \<longrightarrow>
        pagination_step footer = Inr LastPage"
    by (simp add: pagination_step_def)
  have 4: "anchors footer \<noteq> [] \<and> \<not> contains ''Last'' (strip (anchor_text (last (anchors footer))))
        \<and> item_classes footer \<noteq> [] \<and> last (item_classes footer) \<noteq> Some ''active'' \<longrightarrow>
        pagination_step footer = Inr (Click (- 1))
        \<and> nth_locator (anchors footer) (- 1) = Some (last (anchors footer))"
    by (simp add: pagination_step_def nth_locator_def)
  have 5: "pagination_step (pagination (results site inputs branch p)) = Inr OnlyPage \<longrightarrow>
        pages_loop site c branch inputs p st =
          (case parse_html (products (results site inputs branch p)) (act c (PageContent p) st) of
             (Inl e, st1) \<Rightarrow> Some (Inl e, st1)
           | (Inr u, st1) \<Rightarrow> Some (Inr (), info (OnlyOnePage inputs) st1))"
    by (subst pages_loop.simps) (simp split: prod.splits sum.splits)
  have 6: "pagination_step (pagination (results site inputs branch p)) = Inr LastPage \<longrightarrow>
        pages_loop site c branch inputs p st =
          (case parse_html (products (results site inputs branch p)) (act c (PageContent p) st) of
             (Inl e, st1) \<Rightarrow> Some (Inl e, st1)
           | (Inr u, st1) \<Rightarrow> Some (Inr (), st1))"
    by (subst pages_loop.simps) (simp split: prod.splits sum.splits)
  have 7: "pagination_step (pagination (results site inputs branch p)) = Inr (Click i)
        \<and> nth_locator (anchors (pagination (results site inputs branch p))) i = Some next_page \<longrightarrow>
        pages_loop site c branch inputs p st =
          (case parse_html (products (results site inputs branch p)) (act c (PageContent p) st) of
             (Inl e, st1) \<Rightarrow> Some (Inl e, st1)
           | (Inr u, st1) \<Rightarrow>
               pages_loop site c branch inputs (leads_to next_page) (act c (ClickPagination i) st1))"
    by (subst pages_loop.simps) (simp split: prod.splits sum.splits)
  have 8: "forward_links site inputs branch n \<longrightarrow>
        (\<exists>r st' evs rest. pages_loop site c branch inputs p st = Some (r, st')
           \<and> actions st' = actions st @ evs
           \<and> shown_pages evs = p # rest \<and> sorted_wrt (<) (p # rest) \<and> distinct (p # rest)
           \<and> tyres st' = tyres st @
                concat (map (\<lambda>k. card_rows (website st) (products (results site inputs branch k))) (p # rest)))"
  proof
    assume "forward_links site inputs branch n"
    from pages_loop_terminates [OF this, of c p st] obtain r st' evs rest where
      a: "pages_loop site c branch inputs p st = Some (r, st')" "actions st' = actions st @ evs"
        "shown_pages evs = p # rest" "sorted_wrt (<) (p # rest)"
        "tyres st' = tyres st @
           concat (map (\<lambda>k. card_rows (website st) (products (results site inputs branch k))) (p # rest))"
      by blast
    from a(4) have "distinct (p # rest)" by (simp only: strict_sorted_iff)
    with a show "\<exists>r st' evs rest. pages_loop site c branch inputs p st = Some (r, st')
           \<and> actions st' = actions st @ evs
           \<and> shown_pages evs = p # rest \<and> sorted_wrt (<) (p # rest) \<and> distinct (p # rest)
           \<and> tyres st' = tyres st @
                concat (map (\<lambda>k. card_rows (website st) (products (results site inputs branch k))) (p # rest))"
      by blast
  qed
  from 1 2 3 4 5 6 7 8 show ?thesis by blast
qed


theorem pagination_loop_three_way_witness:
  "forward_links three_pages (205, 55, 16) 0 3
   \<and> pagination_step (pagination (results three_pages (205, 55, 16) 0 1)) = Inr (Click 3)
   \<and> pagination_step (pagination (results three_pages (205, 55, 16) 0 2)) = Inr (Click (- 1))
   \<and> pagination_step (pagination (results three_pages (205, 55, 16) 0 3)) = Inr LastPage
   \<and> map_option (\<lambda>(r, st). (r, shown_pages (actions st), map tyre_brand (tyres st)))
        (pages_loop three_pages 1 0 (205, 55, 16) 1 (DexelScraper 0 [])) =
      Some (Inr (), [1, 2, 3], [''Pilot sport'', ''Michelin'', []])
   \<and> (\<exists>r st'. pages_loop three_pages 1 0 (205, 55, 16) 1 (DexelScraper 0 []) = Some (r, st')
         \<and> distinct (shown_pages (actions st')))"
proof -
  let ?q = "(205, 55, 16) :: size_query"
  let ?st = "DexelScraper 0 []"
  have fw: "forward_links three_pages ?q 0 3" by (rule three_pages_forward)
  have s: "pagination_step (pagination (results three_pages ?q 0 1)) = Inr (Click 3)"
    "pagination_step (pagination (results three_pages ?q 0 2)) = Inr (Click (- 1))"
    "pagination_step (pagination (results three_pages ?q 0 3)) = Inr LastPage"
    by code_simp+
  have ev: "map_option (\<lambda>(r, st). (r, shown_pages (actions st), map tyre_brand (tyres st)))
        (pages_loop three_pages 1 0 ?q 1 ?st) =
      Some (Inr (), [1, 2, 3], [''Pilot sport'', ''Michelin'', []])"
    by code_simp
  note T = pagination_loop_three_way [where site = three_pages and inputs = ?q and branch = 0
      and n = 3 and c = 1 and p = 1 and st = ?st]
  from T fw have "\<exists>r st' evs rest. pages_loop three_pages 1 0 ?q 1 ?st = Some (r, st')
      \<and> actions st' = actions ?st @ evs \<and> shown_pages evs = 1 # rest \<and> distinct (1 # rest)"
    by blast
  moreover have "actions ?st = []" by (simp add: DexelScraper_def TyreScraper_def)
  ultimately have "\<exists>r st'. pages_loop three_pages 1 0 ?q 1 ?st = Some (r, st')
      \<and> distinct (shown_pages (actions st'))"
    by auto
  with fw s ev show ?thesis by blast
qed



end
